theory Spec2Isabelle
  imports Complex_Main
begin

section \<open>Python values used by the rental engine\<close>

subsection \<open>Strings\<close>

text \<open>
  Strings are ASCII byte lists. \<open>str.strip()\<close> removes the ASCII white space
  characters (code points 9 to 13 and 28 to 32) from both ends, \<open>str.lower()\<close>
  maps \<open>A\<close>..\<open>Z\<close> to \<open>a\<close>..\<open>z\<close>.
\<close>

definition isspace :: "char \<Rightarrow> bool" where
  "isspace c = (let n = (of_char c :: nat) in (9 \<le> n \<and> n \<le> 13) \<or> (28 \<le> n \<and> n \<le> 32))"

definition strip :: "string \<Rightarrow> string" where
  "strip s = rev (dropWhile isspace (rev (dropWhile isspace s)))"

definition lower_char :: "char \<Rightarrow> char" where
  "lower_char c = (let n = (of_char c :: nat) in if 65 \<le> n \<and> n \<le> 90 then char_of (n + 32) else c)"

definition lower :: "string \<Rightarrow> string" where
  "lower s = map lower_char s"

subsection \<open>Floats\<close>

text \<open>
  A Python \<open>float\<close> is an IEEE 754 binary64 number. A finite float is modelled by the
  rational number it denotes; every arithmetic operation computes the exact result and
  rounds it to the nearest representable number, ties to the even significand
  (\<open>rnd\<close>). Infinities, NaN and overflow are outside the model: the amounts of this
  program are sums of money far below \<open>2 ^ 1024\<close>.

  \<open>exponent q\<close> is the integer \<open>e\<close> with \<open>2 ^ e \<le> \<bar>q\<bar> < 2 ^ (e + 1)\<close>; the spacing of
  the floats around \<open>q\<close> is \<open>2 ^ (e - 52)\<close>, and \<open>2 ^ (- 1074)\<close> in the subnormal range.
\<close>

definition round_half_even :: "rat \<Rightarrow> int" where
  "round_half_even y =
     (let f = \<lfloor>y\<rfloor>; r = y - of_int f
      in if r < 1 / 2 then f else if 1 / 2 < r then f + 1 else if even f then f else f + 1)"

function ilog2 :: "int \<Rightarrow> nat" where
  "ilog2 n = (if n < 2 then 0 else Suc (ilog2 (n div 2)))"
  by pat_completeness auto
termination
  by (relation "measure nat") auto

definition pow2 :: "int \<Rightarrow> rat" where
  "pow2 e = (if 0 \<le> e then 2 ^ nat e else 1 / 2 ^ nat (- e))"

definition exponent :: "rat \<Rightarrow> int" where
  "exponent q =
     (let a = \<bar>q\<bar>
      in if 1 \<le> a then int (ilog2 \<lfloor>a\<rfloor>)
         else - int (Suc (ilog2 (\<lceil>1 / a\<rceil> - 1))))"

definition rnd :: "rat \<Rightarrow> rat" where
  "rnd q =
     (if q = 0 then 0
      else let u = pow2 (max (exponent q) (- 1022) - 52)
           in of_int (round_half_even (q / u)) * u)"

text \<open>The spacing of the floats around \<open>q\<close>, and the rationals that are floats.\<close>

definition ulp :: "rat \<Rightarrow> rat" where
  "ulp q = pow2 (max (exponent q) (- 1022) - 52)"

definition is_float :: "rat \<Rightarrow> bool" where
  "is_float q = (rnd q = q)"

definition fadd :: "rat \<Rightarrow> rat \<Rightarrow> rat" where
  "fadd a b = rnd (a + b)"

definition fsub :: "rat \<Rightarrow> rat \<Rightarrow> rat" where
  "fsub a b = rnd (a - b)"

definition fmul :: "rat \<Rightarrow> rat \<Rightarrow> rat" where
  "fmul a b = rnd (a * b)"

text \<open>\<open>float(n)\<close> for an \<open>int\<close>, applied implicitly in \<open>n * x\<close>.\<close>

definition float_of_int :: "int \<Rightarrow> rat" where
  "float_of_int n = rnd (of_int n)"

text \<open>
  \<open>round(x, 2)\<close>: CPython rounds the exact value of \<open>x\<close> to two decimal places, ties to
  even, and returns the float nearest to that decimal.
\<close>

definition py_round2 :: "rat \<Rightarrow> rat" where
  "py_round2 x = rnd (of_int (round_half_even (x * 100)) / 100)"

subsection \<open>Dates\<close>

text \<open>
  \<open>datetime.strptime(s, "%d-%m-%Y")\<close>: the day is \<open>3[0-1]|[1-2]\d|0[1-9]|[1-9]| [1-9]\<close>,
  the month \<open>1[0-2]|0[1-9]|[1-9]\<close>, the year exactly four digits, nothing may follow, and
  the day must exist in the month. The resulting \<open>datetime\<close> (at midnight) is modelled by
  its proleptic Gregorian ordinal, so that comparison of two dates is comparison of
  integers and \<open>(b - a).days\<close> is \<open>b - a\<close>.
\<close>

definition is_digit :: "char \<Rightarrow> bool" where
  "is_digit c = (let n = (of_char c :: nat) in 48 \<le> n \<and> n \<le> 57)"

definition digit_val :: "char \<Rightarrow> int" where
  "digit_val c = int (of_char c) - 48"

fun day_field :: "string \<Rightarrow> int option" where
  "day_field [a] = (if is_digit a \<and> a \<noteq> CHR ''0'' then Some (digit_val a) else None)"
| "day_field [a, b] =
     (if a = CHR '' '' \<and> is_digit b \<and> b \<noteq> CHR ''0'' then Some (digit_val b)
      else if is_digit a \<and> is_digit b \<and> 1 \<le> 10 * digit_val a + digit_val b
              \<and> 10 * digit_val a + digit_val b \<le> 31
      then Some (10 * digit_val a + digit_val b) else None)"
| "day_field _ = None"

fun month_field :: "string \<Rightarrow> int option" where
  "month_field [a] = (if is_digit a \<and> a \<noteq> CHR ''0'' then Some (digit_val a) else None)"
| "month_field [a, b] =
     (if is_digit a \<and> is_digit b \<and> 1 \<le> 10 * digit_val a + digit_val b
         \<and> 10 * digit_val a + digit_val b \<le> 12
      then Some (10 * digit_val a + digit_val b) else None)"
| "month_field _ = None"

fun year_field :: "string \<Rightarrow> int option" where
  "year_field [a, b, c, d] =
     (if is_digit a \<and> is_digit b \<and> is_digit c \<and> is_digit d
      then Some (1000 * digit_val a + 100 * digit_val b + 10 * digit_val c + digit_val d)
      else None)"
| "year_field _ = None"

definition is_leap :: "int \<Rightarrow> bool" where
  "is_leap y = (if y mod 100 = 0 then y mod 400 = 0 else y mod 4 = 0)"

definition days_in_month :: "int \<Rightarrow> int \<Rightarrow> int" where
  "days_in_month y m =
     (if m = 2 then (if is_leap y then 29 else 28)
      else if m = 4 \<or> m = 6 \<or> m = 9 \<or> m = 11 then 30 else 31)"

definition days_before_month :: "int \<Rightarrow> int \<Rightarrow> int" where
  "days_before_month y m =
     [0, 31, 59, 90, 120, 151, 181, 212, 243, 273, 304, 334] ! nat (m - 1)
       + (if 2 < m \<and> is_leap y then 1 else 0)"

definition toordinal :: "int \<Rightarrow> int \<Rightarrow> int \<Rightarrow> int" where
  "toordinal y m d =
     365 * (y - 1) + (y - 1) div 4 - (y - 1) div 100 + (y - 1) div 400
       + days_before_month y m + d"

text \<open>The parsed date as (year, month, day); \<open>None\<close> is \<open>ValueError\<close>.\<close>

definition strptime :: "string \<Rightarrow> (int \<times> int \<times> int) option" where
  "strptime s =
     (let dash = (\<lambda>c. c \<noteq> CHR ''-'')
      in case dropWhile dash s of
           [] \<Rightarrow> None
         | _ # r1 \<Rightarrow>
             (case dropWhile dash r1 of
                [] \<Rightarrow> None
              | _ # r2 \<Rightarrow>
                  (case (day_field (takeWhile dash s), month_field (takeWhile dash r1),
                         year_field r2) of
                     (Some d, Some m, Some y) \<Rightarrow>
                       if 1 \<le> y \<and> d \<le> days_in_month y m then Some (y, m, d) else None
                   | _ \<Rightarrow> None)))"

section \<open>Errors\<close>

datatype error =
    InvalidRentalPeriodError
  | VehicleNotFoundError string
  | RenterNotFoundError string
  | VehicleNotAvailableError string string string
  | VehicleAlreadyReturnedError string
  | InvalidVehicleDataError
  | ValueError
  | TypeError

section \<open>RentalPeriod\<close>

text \<open>
  A period object is an instance of a class object, and Python keeps one class object
  per module name: the file \<open>rental_period.py\<close> loaded as \<open>rental_period\<close> (by
  \<open>vehicle.py\<close>, \<open>vehicle_rental.py\<close> and \<open>test_models.py\<close>) and the same file
  loaded as \<open>models.rental_period\<close> (by \<open>routes.py\<close> and \<open>test_integration.py\<close>)
  give two classes \<open>RentalPeriod\<close>. \<open>period_class\<close> is the module name of the class
  of the object; \<open>isinstance\<close> compares it.
\<close>

record RentalPeriod =
  period_class :: string
  start_date :: string
  end_date :: string
  start_date_obj :: int
  end_date_obj :: int

definition MIN_YEAR :: int where
  "MIN_YEAR = 2000"

definition MAX_YEAR :: int where
  "MAX_YEAR = 2100"

text \<open>
  \<open>today\<close> is the ordinal of \<open>datetime.now()\<close> cut to midnight. Every failure of the
  source ends as \<open>InvalidRentalPeriodError\<close>.
\<close>

definition validate_and_parse_date :: "int \<Rightarrow> string \<Rightarrow> bool \<Rightarrow> error + int" where
  "validate_and_parse_date today date_str allow_past_dates =
     (case strptime (strip date_str) of
        None \<Rightarrow> Inl InvalidRentalPeriodError
      | Some (y, m, d) \<Rightarrow>
          if y < MIN_YEAR \<or> MAX_YEAR < y then Inl InvalidRentalPeriodError
          else if \<not> allow_past_dates \<and> toordinal y m d < today then Inl InvalidRentalPeriodError
          else Inr (toordinal y m d))"

definition RentalPeriod_init ::
  "string \<Rightarrow> int \<Rightarrow> string \<Rightarrow> string \<Rightarrow> bool \<Rightarrow> error + RentalPeriod" where
  "RentalPeriod_init cls today s e allow_past_dates =
     (case validate_and_parse_date today s allow_past_dates of
        Inl err \<Rightarrow> Inl err
      | Inr so \<Rightarrow>
          (case validate_and_parse_date today e allow_past_dates of
             Inl err \<Rightarrow> Inl err
           | Inr eo \<Rightarrow>
               if eo < so then Inl InvalidRentalPeriodError
               else Inr \<lparr>period_class = cls, start_date = s, end_date = e,
                         start_date_obj = so, end_date_obj = eo\<rparr>))"

definition set_start_date :: "int \<Rightarrow> RentalPeriod \<Rightarrow> string \<Rightarrow> bool \<Rightarrow> error + RentalPeriod" where
  "set_start_date today p s allow_past_dates =
     (case validate_and_parse_date today s allow_past_dates of
        Inl err \<Rightarrow> Inl err
      | Inr so \<Rightarrow>
          if end_date_obj p < so then Inl InvalidRentalPeriodError
          else Inr (p\<lparr>start_date := s, start_date_obj := so\<rparr>))"

definition set_end_date :: "int \<Rightarrow> RentalPeriod \<Rightarrow> string \<Rightarrow> bool \<Rightarrow> error + RentalPeriod" where
  "set_end_date today p e allow_past_dates =
     (case validate_and_parse_date today e allow_past_dates of
        Inl err \<Rightarrow> Inl err
      | Inr eo \<Rightarrow>
          if eo < start_date_obj p then Inl InvalidRentalPeriodError
          else Inr (p\<lparr>end_date := e, end_date_obj := eo\<rparr>))"

definition calculate_duration :: "RentalPeriod \<Rightarrow> int" where
  "calculate_duration p = end_date_obj p - start_date_obj p + 1"

text \<open>
  \<open>overlaps_with\<close> first checks \<open>isinstance(other, RentalPeriod)\<close> against the class
  of its own module and raises \<open>TypeError\<close> for an object of another class.
\<close>

definition overlaps_with :: "RentalPeriod \<Rightarrow> RentalPeriod \<Rightarrow> error + bool" where
  "overlaps_with p other =
     (if period_class other \<noteq> period_class p then Inl TypeError
      else Inr (\<not> (end_date_obj p < start_date_obj other
                      \<or> end_date_obj other < start_date_obj p)))"

text \<open>The comparison that \<open>overlaps_with\<close> returns, on the dates of two periods alone.\<close>

definition dates_overlap :: "RentalPeriod \<Rightarrow> RentalPeriod \<Rightarrow> bool" where
  "dates_overlap p q =
     (\<not> (end_date_obj p < start_date_obj q \<or> end_date_obj q < start_date_obj p))"

text \<open>
  The invariant of a \<open>RentalPeriod\<close> object: its two date objects are the parsed forms of
  its two strings, in range, and the start is not after the end. The constructor
  establishes it and both setters keep it.
\<close>

definition valid_period :: "RentalPeriod \<Rightarrow> bool" where
  "valid_period p =
     (validate_and_parse_date 0 (start_date p) True = Inr (start_date_obj p)
      \<and> validate_and_parse_date 0 (end_date p) True = Inr (end_date_obj p)
      \<and> start_date_obj p \<le> end_date_obj p)"

section \<open>Vehicle\<close>

text \<open>
  An entry of a vehicle's ledger is a Python dict with the keys \<open>start_date\<close>,
  \<open>end_date\<close>, \<open>duration\<close>, \<open>renter_id\<close>, \<open>status\<close> and, once completed,
  \<open>actual_end_date\<close>.
\<close>

record rental_dict =
  rd_start_date :: string
  rd_end_date :: string
  rd_duration :: int
  rd_renter_id :: string
  rd_status :: string
  rd_actual_end_date :: "string option"

text \<open>
  The variants of the abstract class; a motorbike carries its engine capacity, bike type
  and ABS flag, which its price reads. Attributes that no modelled method reads (make,
  model, year, image, doors, fuel, load) are left out.
\<close>

datatype vehicle_kind = Car | Motorbike int string bool | Truck

record Vehicle =
  vehicle_id :: string
  daily_rate :: rat
  kind :: vehicle_kind
  rental_periods :: "rental_dict list"
  rental_history :: "rental_dict list"

definition validate_daily_rate :: "rat \<Rightarrow> error + rat" where
  "validate_daily_rate r = (if r \<le> 0 then Inl InvalidVehicleDataError else Inr (py_round2 r))"

text \<open>
  The loop of \<open>is_available\<close>: each entry is rebuilt as a \<open>RentalPeriod\<close> of the class
  that \<open>from rental_period import RentalPeriod\<close> gives, with \<open>allow_past_dates=True\<close>
  (so the clock is not read), a completed entry with its actual end date. The \<open>try\<close>
  block covers the rebuilding and the call of \<open>overlaps_with\<close>: whatever either raises,
  the entry is skipped.
\<close>

fun is_available_loop :: "rental_dict list \<Rightarrow> RentalPeriod \<Rightarrow> bool" where
  "is_available_loop [] rental_period = True"
| "is_available_loop (d # ds) rental_period =
     (let end_d = (if rd_status d = ''completed''
                   then (case rd_actual_end_date d of Some a \<Rightarrow> a | None \<Rightarrow> rd_end_date d)
                   else rd_end_date d)
      in case RentalPeriod_init ''rental_period'' 0 (rd_start_date d) end_d True of
           Inl err \<Rightarrow> is_available_loop ds rental_period
         | Inr existing_period \<Rightarrow>
             (case overlaps_with rental_period existing_period of
                Inl err \<Rightarrow> is_available_loop ds rental_period
              | Inr overlap \<Rightarrow>
                  if overlap then False else is_available_loop ds rental_period))"

definition is_available :: "Vehicle \<Rightarrow> RentalPeriod \<Rightarrow> bool" where
  "is_available v rental_period = is_available_loop (rental_periods v) rental_period"

definition add_rental :: "Vehicle \<Rightarrow> RentalPeriod \<Rightarrow> string \<Rightarrow> error + Vehicle" where
  "add_rental v rental_period renter =
     (if \<not> is_available v rental_period
      then Inl (VehicleNotAvailableError (vehicle_id v) (start_date rental_period)
                  (end_date rental_period))
      else let rental = \<lparr>rd_start_date = start_date rental_period,
                          rd_end_date = end_date rental_period,
                          rd_duration = calculate_duration rental_period,
                          rd_renter_id = renter,
                          rd_status = ''active'',
                          rd_actual_end_date = None\<rparr>
           in Inr (v\<lparr>rental_periods := rental_periods v @ [rental],
                     rental_history := rental_history v @ [rental]\<rparr>))"

text \<open>The first element that satisfies \<open>P\<close> is changed in place (loop, then \<open>break\<close>).\<close>

fun update_first :: "('a \<Rightarrow> bool) \<Rightarrow> ('a \<Rightarrow> 'a) \<Rightarrow> 'a list \<Rightarrow> 'a list" where
  "update_first P f [] = []"
| "update_first P f (x # xs) = (if P x then f x # xs else x # update_first P f xs)"

definition matches_entry :: "RentalPeriod \<Rightarrow> string \<Rightarrow> rental_dict \<Rightarrow> bool" where
  "matches_entry rental_period st d =
     (rd_start_date d = start_date rental_period \<and> rd_end_date d = end_date rental_period
      \<and> rd_status d = st)"

text \<open>
  \<open>actual_return_date\<close> is \<open>None\<close> by default; \<open>if actual_return_date:\<close> is false for
  \<open>None\<close> and for the empty string.
\<close>

definition remove_rental :: "Vehicle \<Rightarrow> RentalPeriod \<Rightarrow> string option \<Rightarrow> bool \<times> Vehicle" where
  "remove_rental v rental_period actual_return_date =
     (let actual = (case actual_return_date of
                      None \<Rightarrow> end_date rental_period
                    | Some a \<Rightarrow> if a = [] then end_date rental_period else a);
          complete = (\<lambda>d. d\<lparr>rd_status := ''completed'', rd_actual_end_date := Some actual\<rparr>)
      in if list_ex (matches_entry rental_period ''active'') (rental_periods v)
         then (True, v\<lparr>rental_periods :=
                           update_first (matches_entry rental_period ''active'') complete
                             (rental_periods v),
                         rental_history :=
                           update_first (matches_entry rental_period ''active'') complete
                             (rental_history v)\<rparr>)
         else (False, v))"

definition restore_active_rental :: "Vehicle \<Rightarrow> RentalPeriod \<Rightarrow> bool \<times> Vehicle" where
  "restore_active_rental v rental_period =
     (let restore = (\<lambda>d. d\<lparr>rd_status := ''active'', rd_actual_end_date := None\<rparr>)
      in if list_ex (matches_entry rental_period ''completed'') (rental_periods v)
         then (True, v\<lparr>rental_periods :=
                           update_first (matches_entry rental_period ''completed'') restore
                             (rental_periods v),
                         rental_history :=
                           update_first (matches_entry rental_period ''completed'') restore
                             (rental_history v)\<rparr>)
         else (False, v))"

definition is_currently_rented :: "Vehicle \<Rightarrow> bool" where
  "is_currently_rented v = list_ex (\<lambda>d. rd_status d = ''active'') (rental_periods v)"

definition get_base_rental_cost :: "Vehicle \<Rightarrow> RentalPeriod \<Rightarrow> rat" where
  "get_base_rental_cost v rental_period =
     py_round2 (fmul (float_of_int (calculate_duration rental_period)) (daily_rate v))"

definition apply_discount :: "rat \<Rightarrow> rat \<Rightarrow> rat" where
  "apply_discount base_cost discount_percentage =
     (let discount = (if \<not> (0 \<le> discount_percentage \<and> discount_percentage \<le> 1)
                      then max 0 (min 1 discount_percentage) else discount_percentage);
          discount_amount = fmul base_cost discount;
          final_cost = fsub base_cost discount_amount
      in py_round2 final_cost)"

text \<open>The motorbike's multiplier: \<open>1.0\<close>, raised by float additions of decimal literals.\<close>

definition premium_multiplier :: "int \<Rightarrow> string \<Rightarrow> bool \<Rightarrow> rat" where
  "premium_multiplier engine_capacity bike_type has_abs =
     (let m0 = 1;
          m1 = (if 1000 \<le> engine_capacity then fadd m0 (rnd (25 / 100))
                else if 600 \<le> engine_capacity then fadd m0 (rnd (15 / 100))
                else if 300 \<le> engine_capacity then fadd m0 (rnd (5 / 100))
                else m0);
          m2 = (if bike_type = ''Sport'' then fadd m1 (rnd (20 / 100))
                else if bike_type = ''Adventure'' then fadd m1 (rnd (15 / 100))
                else if bike_type = ''Touring'' then fadd m1 (rnd (10 / 100))
                else m1)
      in if has_abs then fadd m2 (rnd (5 / 100)) else m2)"

definition calculate_rental_cost :: "Vehicle \<Rightarrow> RentalPeriod \<Rightarrow> rat \<Rightarrow> rat" where
  "calculate_rental_cost v rental_period user_discount =
     (case kind v of
        Car \<Rightarrow> py_round2 (apply_discount (get_base_rental_cost v rental_period) user_discount)
      | Truck \<Rightarrow> py_round2 (apply_discount (get_base_rental_cost v rental_period) user_discount)
      | Motorbike engine_capacity bike_type has_abs \<Rightarrow>
          py_round2
            (apply_discount
               (fmul (get_base_rental_cost v rental_period)
                  (premium_multiplier engine_capacity bike_type has_abs))
               user_discount))"

section \<open>Renter\<close>

datatype user_type = Individual | Corporate | Staff

record renter_dict =
  rn_vehicle_id :: string
  rn_start_date :: string
  rn_end_date :: string
  rn_duration :: int
  rn_cost :: rat
  rn_status :: string

record Renter =
  renter_id :: string
  user_kind :: user_type
  current_rentals :: "renter_dict list"
  renter_history :: "renter_dict list"

text \<open>The float literals \<open>0.10\<close> and \<open>0.15\<close> are the floats nearest to the decimals.\<close>

definition calculate_discount :: "Renter \<Rightarrow> RentalPeriod \<Rightarrow> rat" where
  "calculate_discount r rental_period =
     (case user_kind r of
        Individual \<Rightarrow> if 7 \<le> calculate_duration rental_period then rnd (10 / 100) else 0
      | Corporate \<Rightarrow> rnd (15 / 100)
      | Staff \<Rightarrow> 0)"

definition renter_add_rental :: "Renter \<Rightarrow> string \<Rightarrow> RentalPeriod \<Rightarrow> rat \<Rightarrow> Renter" where
  "renter_add_rental r vid rental_period rental_cost =
     (let rental = \<lparr>rn_vehicle_id = vid,
                     rn_start_date = start_date rental_period,
                     rn_end_date = end_date rental_period,
                     rn_duration = calculate_duration rental_period,
                     rn_cost = rental_cost,
                     rn_status = ''active''\<rparr>
      in r\<lparr>current_rentals := current_rentals r @ [rental],
            renter_history := renter_history r @ [rental]\<rparr>)"

definition matches_rental :: "string \<Rightarrow> RentalPeriod \<Rightarrow> renter_dict \<Rightarrow> bool" where
  "matches_rental vid rental_period d =
     (rn_vehicle_id d = vid \<and> rn_start_date d = start_date rental_period
      \<and> rn_end_date d = end_date rental_period)"

fun remove_first :: "('a \<Rightarrow> bool) \<Rightarrow> 'a list \<Rightarrow> 'a list" where
  "remove_first P [] = []"
| "remove_first P (x # xs) = (if P x then xs else x # remove_first P xs)"

definition complete_rental :: "Renter \<Rightarrow> string \<Rightarrow> RentalPeriod \<Rightarrow> bool \<times> Renter" where
  "complete_rental r vid rental_period =
     (if list_ex (matches_rental vid rental_period) (current_rentals r)
      then (True,
            r\<lparr>current_rentals := remove_first (matches_rental vid rental_period) (current_rentals r),
              renter_history :=
                update_first (\<lambda>d. matches_rental vid rental_period d \<and> rn_status d = ''active'')
                  (\<lambda>d. d\<lparr>rn_status := ''completed''\<rparr>) (renter_history r)\<rparr>)
      else (False, r))"

definition can_rent_vehicle :: "Renter \<Rightarrow> nat \<Rightarrow> bool" where
  "can_rent_vehicle r max_concurrent_rentals = (length (current_rentals r) < max_concurrent_rentals)"

section \<open>RentalRecord\<close>

text \<open>The two timestamps of a record hold the wall clock and are left out.\<close>

record RentalRecord =
  record_id :: string
  rec_vehicle_id :: string
  rec_renter_id :: string
  rec_start_date :: string
  rec_end_date :: string
  rental_cost :: rat
  status :: string
  discount_applied :: rat

definition VALID_STATUSES :: "string list" where
  "VALID_STATUSES = [''pending'', ''active'', ''completed'', ''cancelled'', ''overdue'']"

definition validate_status :: "string \<Rightarrow> error + string" where
  "validate_status s =
     (if strip (lower s) \<in> set VALID_STATUSES then Inr (strip (lower s)) else Inl ValueError)"

definition RentalRecord_init ::
  "string \<Rightarrow> string \<Rightarrow> string \<Rightarrow> string \<Rightarrow> string \<Rightarrow> rat \<Rightarrow> string \<Rightarrow> rat \<Rightarrow> error + RentalRecord" where
  "RentalRecord_init rid vid renter s e cost st discount =
     (case validate_status st of
        Inl err \<Rightarrow> Inl err
      | Inr st' \<Rightarrow>
          Inr \<lparr>record_id = rid, rec_vehicle_id = vid, rec_renter_id = renter,
               rec_start_date = s, rec_end_date = e, rental_cost = cost, status = st',
               discount_applied = discount\<rparr>)"

definition set_status :: "RentalRecord \<Rightarrow> string \<Rightarrow> error + RentalRecord" where
  "set_status r s =
     (case validate_status s of Inl err \<Rightarrow> Inl err | Inr st' \<Rightarrow> Inr (r\<lparr>status := st'\<rparr>))"

definition set_rental_cost :: "RentalRecord \<Rightarrow> rat \<Rightarrow> error + RentalRecord" where
  "set_rental_cost r cost =
     (if cost < 0 then Inl ValueError else Inr (r\<lparr>rental_cost := py_round2 cost\<rparr>))"

definition mark_as_active :: "RentalRecord \<Rightarrow> error + RentalRecord" where
  "mark_as_active r = set_status r ''active''"

definition mark_as_completed :: "RentalRecord \<Rightarrow> error + RentalRecord" where
  "mark_as_completed r = set_status r ''completed''"

definition mark_as_overdue :: "RentalRecord \<Rightarrow> error + RentalRecord" where
  "mark_as_overdue r = set_status r ''overdue''"

definition mark_as_cancelled :: "RentalRecord \<Rightarrow> error + RentalRecord" where
  "mark_as_cancelled r = set_status r ''cancelled''"

text \<open>One call of the public status interface.\<close>

datatype status_update =
  SetStatus string | MarkActive | MarkCompleted | MarkOverdue | MarkCancelled

fun apply_update :: "RentalRecord \<Rightarrow> status_update \<Rightarrow> error + RentalRecord" where
  "apply_update r (SetStatus s) = set_status r s"
| "apply_update r MarkActive = mark_as_active r"
| "apply_update r MarkCompleted = mark_as_completed r"
| "apply_update r MarkOverdue = mark_as_overdue r"
| "apply_update r MarkCancelled = mark_as_cancelled r"

text \<open>
  A sequence of calls on one record; a call that raises leaves the record as it was, and
  the caller goes on.
\<close>

fun apply_updates :: "RentalRecord \<Rightarrow> status_update list \<Rightarrow> RentalRecord" where
  "apply_updates r [] = r"
| "apply_updates r (u # us) =
     (case apply_update r u of Inl err \<Rightarrow> apply_updates r us | Inr r' \<Rightarrow> apply_updates r' us)"

section \<open>VehicleRental, the engine\<close>

text \<open>
  The engine owns the three lists and the counter of record ids. \<open>save_data\<close> and the
  printed confirmations do not change them and are left out. An object found in a list
  is changed in place: the model writes the changed object back over the first element
  with its id, which is the element \<open>_find_..._by_id\<close> returned.
\<close>

record VehicleRental =
  vehicles :: "Vehicle list"
  renters :: "Renter list"
  rental_records :: "RentalRecord list"
  next_record_id :: nat

definition find_vehicle_by_id :: "VehicleRental \<Rightarrow> string \<Rightarrow> Vehicle option" where
  "find_vehicle_by_id sys vid = List.find (\<lambda>v. vehicle_id v = vid) (vehicles sys)"

definition find_renter_by_id :: "VehicleRental \<Rightarrow> string \<Rightarrow> Renter option" where
  "find_renter_by_id sys rid = List.find (\<lambda>r. renter_id r = rid) (renters sys)"

definition store_vehicle :: "VehicleRental \<Rightarrow> string \<Rightarrow> Vehicle \<Rightarrow> VehicleRental" where
  "store_vehicle sys vid v =
     sys\<lparr>vehicles := update_first (\<lambda>x. vehicle_id x = vid) (\<lambda>x. v) (vehicles sys)\<rparr>"

definition store_renter :: "VehicleRental \<Rightarrow> string \<Rightarrow> Renter \<Rightarrow> VehicleRental" where
  "store_renter sys rid r =
     sys\<lparr>renters := update_first (\<lambda>x. renter_id x = rid) (\<lambda>x. r) (renters sys)\<rparr>"

text \<open>
  The body of the \<open>try\<close> block: \<open>Inl\<close> is an exception raised inside it, \<open>Inr\<close> a value
  returned, each with the state reached. Both handlers return \<open>False\<close>.
\<close>

definition rent_vehicles_try ::
  "VehicleRental \<Rightarrow> string \<Rightarrow> string \<Rightarrow> RentalPeriod \<Rightarrow> (error + bool) \<times> VehicleRental" where
  "rent_vehicles_try sys vid rid rental_period =
     (case find_vehicle_by_id sys vid of
        None \<Rightarrow> (Inl (VehicleNotFoundError vid), sys)
      | Some vehicle \<Rightarrow>
          (case find_renter_by_id sys rid of
             None \<Rightarrow> (Inl (RenterNotFoundError rid), sys)
           | Some renter \<Rightarrow>
               if \<not> can_rent_vehicle renter 5 then (Inr False, sys)
               else if \<not> is_available vehicle rental_period
               then (Inl (VehicleNotAvailableError vid (start_date rental_period)
                            (end_date rental_period)), sys)
               else
                 let user_discount = calculate_discount renter rental_period;
                     cost = calculate_rental_cost vehicle rental_period user_discount
                 in (case add_rental vehicle rental_period rid of
                       Inl err \<Rightarrow> (Inl err, sys)
                     | Inr vehicle' \<Rightarrow>
                         (Inr True,
                          store_renter (store_vehicle sys vid vehicle') rid
                            (renter_add_rental renter vid rental_period cost)))))"

definition rent_vehicles ::
  "VehicleRental \<Rightarrow> string \<Rightarrow> string \<Rightarrow> RentalPeriod \<Rightarrow> bool \<times> VehicleRental" where
  "rent_vehicles sys vid rid rental_period =
     (case rent_vehicles_try sys vid rid rental_period of
        (Inl err, sys') \<Rightarrow> (False, sys')
      | (Inr b, sys') \<Rightarrow> (b, sys'))"

definition return_vehicles_try ::
  "VehicleRental \<Rightarrow> string \<Rightarrow> string \<Rightarrow> RentalPeriod \<Rightarrow> (error + bool) \<times> VehicleRental" where
  "return_vehicles_try sys vid rid rental_period =
     (case find_vehicle_by_id sys vid of
        None \<Rightarrow> (Inl (VehicleNotFoundError vid), sys)
      | Some vehicle \<Rightarrow>
          (case find_renter_by_id sys rid of
             None \<Rightarrow> (Inl (RenterNotFoundError rid), sys)
           | Some renter \<Rightarrow>
               if \<not> is_currently_rented vehicle then (Inl (VehicleAlreadyReturnedError vid), sys)
               else
                 (case remove_rental vehicle rental_period None of
                    (False, vehicle') \<Rightarrow> (Inr False, sys)
                  | (True, vehicle') \<Rightarrow>
                      (case complete_rental renter vid rental_period of
                         (False, renter') \<Rightarrow>
                           (case add_rental vehicle' rental_period rid of
                              Inl err \<Rightarrow> (Inl err, store_vehicle sys vid vehicle')
                            | Inr vehicle'' \<Rightarrow> (Inr False, store_vehicle sys vid vehicle''))
                       | (True, renter') \<Rightarrow>
                           (Inr True,
                            store_renter (store_vehicle sys vid vehicle') rid renter')))))"

definition return_vehicles ::
  "VehicleRental \<Rightarrow> string \<Rightarrow> string \<Rightarrow> RentalPeriod \<Rightarrow> bool \<times> VehicleRental" where
  "return_vehicles sys vid rid rental_period =
     (case return_vehicles_try sys vid rid rental_period of
        (Inl err, sys') \<Rightarrow> (False, sys')
      | (Inr b, sys') \<Rightarrow> (b, sys'))"

text \<open>The record id \<open>f"R{n:05d}"\<close>: the decimal digits, padded with zeros to five.\<close>

fun decimal :: "nat \<Rightarrow> string" where
  "decimal n =
     (if n < 10 then [char_of (48 + n)] else decimal (n div 10) @ [char_of (48 + n mod 10)])"

definition format_record_id :: "nat \<Rightarrow> string" where
  "format_record_id n = CHR ''R'' # replicate (5 - length (decimal n)) CHR ''0'' @ decimal n"

definition add_rental_record ::
  "VehicleRental \<Rightarrow> string \<Rightarrow> string \<Rightarrow> string \<Rightarrow> string \<Rightarrow> rat \<Rightarrow> rat
     \<Rightarrow> (error + RentalRecord) \<times> VehicleRental" where
  "add_rental_record sys vid rid s e cost discount =
     (let sys' = sys\<lparr>next_record_id := next_record_id sys + 1\<rparr>
      in case RentalRecord_init (format_record_id (next_record_id sys)) vid rid s e cost
                ''active'' discount of
           Inl err \<Rightarrow> (Inl err, sys')
         | Inr r \<Rightarrow> (Inr r, sys'\<lparr>rental_records := rental_records sys' @ [r]\<rparr>))"

definition get_rental_records_by_vehicle :: "VehicleRental \<Rightarrow> string \<Rightarrow> RentalRecord list" where
  "get_rental_records_by_vehicle sys vid = filter (\<lambda>r. rec_vehicle_id r = vid) (rental_records sys)"

definition get_rental_records_by_renter :: "VehicleRental \<Rightarrow> string \<Rightarrow> RentalRecord list" where
  "get_rental_records_by_renter sys rid = filter (\<lambda>r. rec_renter_id r = rid) (rental_records sys)"

section \<open>The scenario of the integration tests\<close>

text \<open>
  The fixture of \<open>test_integration.py\<close>: the cars CAR001 (65.00 a day) and CAR002
  (95.00 a day), the individual renter I001, the corporate renter C001 and the staff
  member S001; the clock stands at 1 December 2025, before every period of the tests.
\<close>

definition today0 :: int where
  "today0 = 739586"

definition car001 :: Vehicle where
  "car001 = \<lparr>vehicle_id = ''CAR001'', daily_rate = 65, kind = Car,
              rental_periods = [], rental_history = []\<rparr>"

definition car002 :: Vehicle where
  "car002 = \<lparr>vehicle_id = ''CAR002'', daily_rate = 95, kind = Car,
              rental_periods = [], rental_history = []\<rparr>"

definition i001 :: Renter where
  "i001 = \<lparr>renter_id = ''I001'', user_kind = Individual,
            current_rentals = [], renter_history = []\<rparr>"

definition c001 :: Renter where
  "c001 = \<lparr>renter_id = ''C001'', user_kind = Corporate,
            current_rentals = [], renter_history = []\<rparr>"

definition s001 :: Renter where
  "s001 = \<lparr>renter_id = ''S001'', user_kind = Staff,
            current_rentals = [], renter_history = []\<rparr>"

definition full_system :: VehicleRental where
  "full_system = \<lparr>vehicles = [car001, car002], renters = [i001, c001, s001],
                   rental_records = [], next_record_id = 1\<rparr>"

text \<open>
  The periods 01-01-2026..05-01-2026, 03-01-2026..08-01-2026 and 10-01-2026..15-01-2026,
  as instances of the class of \<open>rental_period\<close>, the way \<open>test_models.py\<close> builds
  its periods.
\<close>

definition period1 :: RentalPeriod where
  "period1 = \<lparr>period_class = ''rental_period'', start_date = ''01-01-2026'', end_date = ''05-01-2026'',
       start_date_obj = 739617, end_date_obj = 739621\<rparr>"

definition period2 :: RentalPeriod where
  "period2 = \<lparr>period_class = ''rental_period'', start_date = ''03-01-2026'', end_date = ''08-01-2026'',
       start_date_obj = 739619, end_date_obj = 739624\<rparr>"

definition period3 :: RentalPeriod where
  "period3 = \<lparr>period_class = ''rental_period'', start_date = ''10-01-2026'', end_date = ''15-01-2026'',
       start_date_obj = 739626, end_date_obj = 739631\<rparr>"

text \<open>
  The same periods as instances of the class of \<open>models.rental_period\<close>, the way
  \<open>routes.py\<close> and \<open>test_integration.py\<close> build them.
\<close>

definition pkg_period1 :: RentalPeriod where
  "pkg_period1 = \<lparr>period_class = ''models.rental_period'', start_date = ''01-01-2026'', end_date = ''05-01-2026'',
       start_date_obj = 739617, end_date_obj = 739621\<rparr>"

definition pkg_period2 :: RentalPeriod where
  "pkg_period2 = \<lparr>period_class = ''models.rental_period'', start_date = ''03-01-2026'', end_date = ''08-01-2026'',
       start_date_obj = 739619, end_date_obj = 739624\<rparr>"

definition pkg_period3 :: RentalPeriod where
  "pkg_period3 = \<lparr>period_class = ''models.rental_period'', start_date = ''10-01-2026'', end_date = ''15-01-2026'',
       start_date_obj = 739626, end_date_obj = 739631\<rparr>"

text \<open>A car at 65.18 a day.\<close>

definition car_6518 :: Vehicle where
  "car_6518 = \<lparr>vehicle_id = ''CAR003'', daily_rate = rnd (6518 / 100), kind = Car,
                rental_periods = [], rental_history = []\<rparr>"

text \<open>A renter who holds five rentals, the default limit, in place of I001.\<close>

definition capacity_renter :: Renter where
  "capacity_renter =
     \<lparr>renter_id = ''I001'', user_kind = Individual,
      current_rentals =
        replicate 5 \<lparr>rn_vehicle_id = ''CAR002'', rn_start_date = ''01-02-2026'',
                      rn_end_date = ''02-02-2026'', rn_duration = 2, rn_cost = 190,
                      rn_status = ''active''\<rparr>,
      renter_history = []\<rparr>"

definition capacity_system :: VehicleRental where
  "capacity_system = \<lparr>vehicles = [car001, car002], renters = [capacity_renter, c001, s001],
                       rental_records = [], next_record_id = 1\<rparr>"

text \<open>CAR001 after I001 has rented it for the first period, and after that rental is completed.\<close>

definition car001_rented :: Vehicle where
  "car001_rented =
     car001\<lparr>rental_periods :=
               [\<lparr>rd_start_date = ''01-01-2026'', rd_end_date = ''05-01-2026'', rd_duration = 5,
                 rd_renter_id = ''I001'', rd_status = ''active'', rd_actual_end_date = None\<rparr>],
             rental_history :=
               [\<lparr>rd_start_date = ''01-01-2026'', rd_end_date = ''05-01-2026'', rd_duration = 5,
                 rd_renter_id = ''I001'', rd_status = ''active'', rd_actual_end_date = None\<rparr>]\<rparr>"

definition car001_completed :: Vehicle where
  "car001_completed =
     car001\<lparr>rental_periods :=
               [\<lparr>rd_start_date = ''01-01-2026'', rd_end_date = ''05-01-2026'', rd_duration = 5,
                 rd_renter_id = ''I001'', rd_status = ''completed'',
                 rd_actual_end_date = Some ''05-01-2026''\<rparr>],
             rental_history :=
               [\<lparr>rd_start_date = ''01-01-2026'', rd_end_date = ''05-01-2026'', rd_duration = 5,
                 rd_renter_id = ''I001'', rd_status = ''completed'',
                 rd_actual_end_date = Some ''05-01-2026''\<rparr>]\<rparr>"

definition i001_renting :: Renter where
  "i001_renting =
     i001\<lparr>current_rentals :=
             [\<lparr>rn_vehicle_id = ''CAR001'', rn_start_date = ''01-01-2026'',
               rn_end_date = ''05-01-2026'', rn_duration = 5, rn_cost = 325,
               rn_status = ''active''\<rparr>],
           renter_history :=
             [\<lparr>rn_vehicle_id = ''CAR001'', rn_start_date = ''01-01-2026'',
               rn_end_date = ''05-01-2026'', rn_duration = 5, rn_cost = 325,
               rn_status = ''active''\<rparr>]\<rparr>"

text \<open>The fixture after \<open>rent_vehicles("CAR001", "I001", 01-01-2026..05-01-2026)\<close>.\<close>

definition rented_system :: VehicleRental where
  "rented_system = full_system\<lparr>vehicles := [car001_rented, car002],
                               renters := [i001_renting, c001, s001]\<rparr>"

text \<open>The entry that \<open>add_rental\<close> appends to both lists of the vehicle.\<close>

definition active_entry :: "RentalPeriod \<Rightarrow> string \<Rightarrow> rental_dict" where
  "active_entry p renter =
     \<lparr>rd_start_date = start_date p, rd_end_date = end_date p,
      rd_duration = calculate_duration p, rd_renter_id = renter, rd_status = ''active'',
      rd_actual_end_date = None\<rparr>"

text \<open>CAR001 with the completed rental of I001 and a second, active entry for C001.\<close>

definition car001_reentered :: Vehicle where
  "car001_reentered =
     car001_completed\<lparr>rental_periods :=
                         rental_periods car001_completed @ [active_entry period1 ''C001''],
                       rental_history :=
                         rental_history car001_completed @ [active_entry period1 ''C001'']\<rparr>"



text \<open>A record of that rental, already completed.\<close>

definition completed_record :: RentalRecord where
  "completed_record =
     \<lparr>record_id = ''R00001'', rec_vehicle_id = ''CAR001'', rec_renter_id = ''I001'',
      rec_start_date = ''01-01-2026'', rec_end_date = ''05-01-2026'', rental_cost = 325,
      status = ''completed'', discount_applied = 0\<rparr>"

section \<open>The reference behaviour\<close>

text \<open>
  The discount policy in the words of the specification: an individual renter gets 0.10
  from seven days on and nothing below, a corporate renter a flat 0.15, staff nothing.
\<close>

definition reference_discount :: "user_type \<Rightarrow> int \<Rightarrow> rat" where
  "reference_discount k duration_days =
     (case k of
        Individual \<Rightarrow> if 7 \<le> duration_days then rnd (10 / 100) else 0
      | Corporate \<Rightarrow> rnd (15 / 100)
      | Staff \<Rightarrow> 0)"

text \<open>
  The order of the specification on the statuses of a record: pending, then active, then
  the terminal states completed, cancelled and overdue.
\<close>

definition status_rank :: "string \<Rightarrow> nat" where
  "status_rank s = (if s = ''pending'' then 0 else if s = ''active'' then 1 else 2)"

section \<open>Properties of the float model\<close>

text \<open>
  The exponent computed by \<open>exponent\<close> is the binary exponent, so \<open>rnd\<close> rounds on the
  grid of the floats: it is monotone, odd, the identity on its own results, and off by
  at most half the spacing.
\<close>

subsection \<open>The binary exponent\<close>

declare ilog2.simps [simp del]

lemma pow2_powi: "pow2 e = 2 powi e"
  by (simp add: pow2_def power_int_def field_simps)

lemma pow2_pos [simp]: "0 < pow2 e"
  by (simp add: pow2_def)

lemma pow2_add: "pow2 (a + b) = pow2 a * pow2 b"
  by (simp add: pow2_powi power_int_add)

lemma pow2_mono: "a \<le> b \<Longrightarrow> pow2 a \<le> pow2 b"
  by (simp add: pow2_powi power_int_increasing)

lemma pow2_strict_mono: "a < b \<Longrightarrow> pow2 a < pow2 b"
  by (simp add: pow2_powi power_int_strict_increasing)

lemma pow2_nat: "pow2 (int n) = 2 ^ n"
  by (simp add: pow2_def)

lemma pow2_neg_nat: "pow2 (- int n) = 1 / 2 ^ n"
  by (auto simp: pow2_def)

lemma pow2_Suc: "pow2 (e + 1) = 2 * pow2 e"
  using pow2_add [of e 1] by (simp add: pow2_def)

lemma ilog2_bounds: "0 < n \<Longrightarrow> 2 ^ ilog2 n \<le> n \<and> n < 2 ^ Suc (ilog2 n)"
proof (induction n rule: ilog2.induct)
  case (1 n)
  show ?case
  proof (cases "n < 2")
    case True
    with 1(2) have "n = 1" by simp
    then show ?thesis by (simp add: ilog2.simps)
  next
    case False
    then have "0 < n div 2" by simp
    with 1(1) [OF False] have "2 ^ ilog2 (n div 2) \<le> n div 2 \<and> n div 2 < 2 ^ Suc (ilog2 (n div 2))"
      by simp
    moreover have "ilog2 n = Suc (ilog2 (n div 2))"
      using False by (subst ilog2.simps) simp
    ultimately show ?thesis by simp linarith
  qed
qed

lemma ilog2_bounds_rat:
  assumes "0 < n"
  shows "(2::rat) ^ ilog2 n \<le> of_int n" and "(of_int n :: rat) + 1 \<le> 2 ^ Suc (ilog2 n)"
proof -
  from ilog2_bounds [OF assms] have b: "2 ^ ilog2 n \<le> n" "n + 1 \<le> 2 ^ Suc (ilog2 n)"
    by simp_all
  have "(of_int (2 ^ ilog2 n) :: rat) \<le> of_int n"
    using b(1) by (simp only: of_int_le_iff)
  then show "(2::rat) ^ ilog2 n \<le> of_int n" by simp
  have "(of_int (n + 1) :: rat) \<le> of_int (2 ^ Suc (ilog2 n))"
    using b(2) by (simp only: of_int_le_iff)
  then show "(of_int n :: rat) + 1 \<le> 2 ^ Suc (ilog2 n)" by simp
qed

lemma exponent_bounds:
  assumes "q \<noteq> 0"
  shows "pow2 (exponent q) \<le> \<bar>q\<bar>" and "\<bar>q\<bar> < pow2 (exponent q + 1)"
proof -
  define a where "a = \<bar>q\<bar>"
  have a0: "0 < a" using assms by (simp add: a_def)
  have "pow2 (exponent q) \<le> a \<and> a < pow2 (exponent q + 1)"
  proof (cases "1 \<le> a")
    case True
    define n where "n = \<lfloor>a\<rfloor>"
    have n1: "0 < n" using True by (simp add: n_def)
    have e: "exponent q = int (ilog2 n)"
      using True by (simp add: exponent_def a_def n_def)
    have fl: "of_int n \<le> a" "a < of_int n + 1"
      unfolding n_def by linarith+
    note b = ilog2_bounds_rat [OF n1]
    have "2 ^ ilog2 n \<le> a" "a < 2 ^ Suc (ilog2 n)"
      using b fl by linarith+
    then have "pow2 (exponent q) \<le> a" "a < pow2 (exponent q + 1)"
      by (simp_all add: e pow2_Suc pow2_nat)
    then show ?thesis by simp
  next
    case False
    define m where "m = \<lceil>1 / a\<rceil>"
    define n where "n = m - 1"
    have inv: "1 < 1 / a" using False a0 by simp
    have m2: "2 \<le> m" using inv unfolding m_def by linarith
    have n1: "0 < n" using m2 by (simp add: n_def)
    have e: "exponent q = - int (Suc (ilog2 n))"
      using False by (simp add: exponent_def a_def n_def m_def)
    have n_eq: "(of_int n :: rat) = of_int m - 1"
      by (simp add: n_def)
    have ce: "1 / a \<le> of_int m" "of_int m - 1 < 1 / a"
      unfolding m_def by linarith+
    note b = ilog2_bounds_rat [OF n1]
    have up: "1 / a \<le> 2 ^ Suc (ilog2 n)"
      using b(2) ce(1) unfolding n_eq by linarith
    have lo: "2 ^ ilog2 n < 1 / a"
      using b(1) ce(2) unfolding n_eq by linarith
    have "1 / 2 ^ Suc (ilog2 n) \<le> a"
      using up a0 by (simp add: field_simps)
    then have "pow2 (exponent q) \<le> a"
      unfolding e pow2_neg_nat .
    moreover have "a < 1 / 2 ^ ilog2 n"
      using lo a0 by (simp add: field_simps)
    then have "a < pow2 (exponent q + 1)"
      using pow2_neg_nat [of "ilog2 n"] by (simp add: e)
    ultimately show ?thesis by simp
  qed
  then show "pow2 (exponent q) \<le> \<bar>q\<bar>" and "\<bar>q\<bar> < pow2 (exponent q + 1)"
    by (simp_all add: a_def)
qed

lemma exponent_unique:
  assumes "0 < a" and "pow2 e \<le> a" and "a < pow2 (e + 1)"
  shows "exponent a = e"
proof (rule ccontr)
  assume ne: "exponent a \<noteq> e"
  have a: "a \<noteq> 0" "\<bar>a\<bar> = a" using assms(1) by simp_all
  note b = exponent_bounds [OF a(1), unfolded a(2)]
  show False
  proof (cases "exponent a < e")
    case True
    then have "pow2 (exponent a + 1) \<le> pow2 e" by (intro pow2_mono) simp
    with b(2) assms(2) show False by simp
  next
    case False
    with ne have "pow2 (e + 1) \<le> pow2 (exponent a)" by (intro pow2_mono) simp
    with b(1) assms(3) show False by simp
  qed
qed

lemma exponent_mono:
  assumes "0 < x" and "x \<le> y"
  shows "exponent x \<le> exponent y"
proof (rule ccontr)
  assume "\<not> exponent x \<le> exponent y"
  then have "pow2 (exponent y + 1) \<le> pow2 (exponent x)" by (intro pow2_mono) simp
  moreover have "pow2 (exponent x) \<le> x" "y < pow2 (exponent y + 1)"
    using exponent_bounds [of x] exponent_bounds [of y] assms by simp_all
  ultimately show False using assms(2) by simp
qed

lemma exponent_minus [simp]: "exponent (- q) = exponent q"
  by (simp add: exponent_def)


subsection \<open>Rounding to an integer\<close>

lemma round_half_even_of_int [simp]: "round_half_even (of_int n) = n"
  by (simp add: round_half_even_def)

lemma round_half_even_cases:
  "round_half_even y = \<lfloor>y\<rfloor> \<or> round_half_even y = \<lfloor>y\<rfloor> + 1"
  by (simp add: round_half_even_def Let_def)

lemma round_half_even_low:
  "y - of_int \<lfloor>y\<rfloor> < 1 / 2 \<Longrightarrow> round_half_even y = \<lfloor>y\<rfloor>"
  by (simp add: round_half_even_def Let_def)

lemma round_half_even_high:
  "1 / 2 < y - of_int \<lfloor>y\<rfloor> \<Longrightarrow> round_half_even y = \<lfloor>y\<rfloor> + 1"
  by (simp add: round_half_even_def Let_def)

lemma round_half_even_mono:
  assumes "x \<le> y"
  shows "round_half_even x \<le> round_half_even y"
proof (cases "\<lfloor>x\<rfloor> = \<lfloor>y\<rfloor>")
  case True
  have "x - of_int \<lfloor>x\<rfloor> \<le> y - of_int \<lfloor>y\<rfloor>"
    using assms True by simp
  then show ?thesis
    using True by (auto simp: round_half_even_def Let_def)
next
  case False
  have "\<lfloor>x\<rfloor> \<le> \<lfloor>y\<rfloor>" using assms by (rule floor_mono)
  with False have "\<lfloor>x\<rfloor> + 1 \<le> \<lfloor>y\<rfloor>" by simp
  moreover have "round_half_even x \<le> \<lfloor>x\<rfloor> + 1" "\<lfloor>y\<rfloor> \<le> round_half_even y"
    using round_half_even_cases [of x] round_half_even_cases [of y] by auto
  ultimately show ?thesis by simp
qed

lemma round_half_even_nonneg: "0 \<le> y \<Longrightarrow> 0 \<le> round_half_even y"
  using round_half_even_mono [of 0 y] round_half_even_of_int [of 0] by simp

lemma round_half_even_minus: "round_half_even (- y) = - round_half_even y"
proof (cases "y = of_int \<lfloor>y\<rfloor>")
  case True
  then obtain n where "y = of_int n" ..
  then have "- y = of_int (- n)" by simp
  then show ?thesis
    using \<open>y = of_int n\<close> by (simp only: round_half_even_of_int)
next
  case False
  then have lt: "of_int \<lfloor>y\<rfloor> < y"
    using of_int_floor_le [of y] by linarith
  have up: "y < of_int \<lfloor>y\<rfloor> + 1"
    by linarith
  have c: "\<lfloor>- y\<rfloor> = - \<lfloor>y\<rfloor> - 1"
  proof (rule floor_unique)
    show "of_int (- \<lfloor>y\<rfloor> - 1) \<le> - y" using up by simp
    show "- y < of_int (- \<lfloor>y\<rfloor> - 1) + 1" using lt by simp
  qed
  define r where "r = y - of_int \<lfloor>y\<rfloor>"
  have r: "- y - of_int \<lfloor>- y\<rfloor> = 1 - r"
    by (simp add: c r_def)
  have ev: "even (\<lfloor>- y\<rfloor>) = odd \<lfloor>y\<rfloor>"
    by (simp add: c)
  show ?thesis
    unfolding round_half_even_def Let_def r ev
    unfolding r_def [symmetric] c
    by auto
qed


subsection \<open>Rounding to a float\<close>

lemma ulp_pos [simp]: "0 < ulp q"
  by (simp add: ulp_def)

lemma ulp_neq0 [simp]: "ulp q \<noteq> 0"
  by (metis ulp_pos less_irrefl)

lemma ulp_nonneg [simp]: "0 \<le> ulp q"
  by (rule less_imp_le) simp

lemma rnd_ulp: "rnd q = (if q = 0 then 0 else of_int (round_half_even (q / ulp q)) * ulp q)"
  by (simp add: rnd_def ulp_def Let_def)

lemma rnd_0 [simp]: "rnd 0 = 0"
  by (simp add: rnd_def)

lemma ulp_minus [simp]: "ulp (- q) = ulp q"
  by (simp add: ulp_def)

lemma rnd_minus: "rnd (- q) = - rnd q"
  by (simp add: rnd_ulp round_half_even_minus)

lemma rnd_nonneg:
  assumes "0 \<le> q"
  shows "0 \<le> rnd q"
proof -
  have "0 \<le> q / ulp q"
    using assms by (intro divide_nonneg_pos) simp_all
  then have "0 \<le> round_half_even (q / ulp q)"
    by (rule round_half_even_nonneg)
  then have "(0::rat) \<le> of_int (round_half_even (q / ulp q)) * ulp q"
    by (intro mult_nonneg_nonneg) simp_all
  then show ?thesis by (simp add: rnd_ulp)
qed

lemma pow2_52: "pow2 52 = of_int (2 ^ 52)" and pow2_53: "pow2 53 = of_int (2 ^ 53)"
  by (simp_all add: pow2_def)

lemma pow2_split: "pow2 (e + k) = pow2 k * pow2 e"
  using pow2_add [of k e] by (simp add: add.commute)

lemma rnd_lower:
  assumes "0 < q" and "- 1022 \<le> exponent q"
  shows "pow2 (exponent q) \<le> rnd q"
proof -
  have u: "ulp q = pow2 (exponent q - 52)"
    using assms(2) by (simp add: ulp_def max_def)
  have "pow2 (exponent q) = pow2 52 * ulp q"
    using pow2_split [of "exponent q - 52" 52] by (simp add: u)
  moreover have "pow2 (exponent q) \<le> q"
    using exponent_bounds(1) [of q] assms(1) by simp
  ultimately have "pow2 52 \<le> q / ulp q"
    by (simp add: pos_le_divide_eq)
  then have "round_half_even (pow2 52) \<le> round_half_even (q / ulp q)"
    by (rule round_half_even_mono)
  then have "(2::int) ^ 52 \<le> round_half_even (q / ulp q)"
    unfolding pow2_52 round_half_even_of_int .
  then have "of_int (2 ^ 52) \<le> (of_int (round_half_even (q / ulp q)) :: rat)"
    by (simp only: of_int_le_iff)
  then have "of_int (2 ^ 52) * ulp q \<le> of_int (round_half_even (q / ulp q)) * ulp q"
    by (simp only: mult_le_cancel_right_pos ulp_pos)
  then show ?thesis
    using assms(1) \<open>pow2 (exponent q) = pow2 52 * ulp q\<close>
    by (simp only: rnd_ulp pow2_52) simp
qed

lemma rnd_upper:
  assumes "0 < q"
  shows "rnd q \<le> pow2 (max (exponent q) (- 1022) + 1)"
proof -
  define E where "E = max (exponent q) (- 1022)"
  have u: "ulp q = pow2 (E - 52)"
    by (simp add: ulp_def E_def)
  have "E + 1 = 53 + (E - 52)" by simp
  then have "pow2 (E + 1) = pow2 (53 + (E - 52))" by (simp only:)
  then have g: "pow2 (E + 1) = pow2 53 * ulp q"
    by (simp only: pow2_add u)
  have "q < pow2 (exponent q + 1)"
    using exponent_bounds(2) [of q] assms by simp
  also have "\<dots> \<le> pow2 (E + 1)"
    by (intro pow2_mono) (simp add: E_def)
  finally have "q / ulp q \<le> pow2 53"
    by (simp add: g pos_divide_le_eq)
  then have "round_half_even (q / ulp q) \<le> round_half_even (pow2 53)"
    by (rule round_half_even_mono)
  then have "round_half_even (q / ulp q) \<le> (2::int) ^ 53"
    unfolding pow2_53 round_half_even_of_int .
  then have "(of_int (round_half_even (q / ulp q)) :: rat) \<le> of_int (2 ^ 53)"
    by (simp only: of_int_le_iff)
  then have "of_int (round_half_even (q / ulp q)) * ulp q \<le> of_int (2 ^ 53) * ulp q"
    by (simp only: mult_le_cancel_right_pos ulp_pos)
  then show ?thesis
    using assms g by (simp only: rnd_ulp pow2_53 E_def [symmetric]) simp
qed

lemma rnd_mono_pos:
  assumes "0 < x" and "x \<le> y"
  shows "rnd x \<le> rnd y"
proof -
  define Ex where "Ex = max (exponent x) (- 1022)"
  define Ey where "Ey = max (exponent y) (- 1022)"
  have y0: "0 < y" using assms by simp
  have le: "Ex \<le> Ey"
    using exponent_mono [OF assms] by (simp add: Ex_def Ey_def)
  show ?thesis
  proof (cases "Ex = Ey")
    case True
    then have u: "ulp x = ulp y" by (simp add: ulp_def Ex_def Ey_def)
    have "x / ulp y \<le> y / ulp y"
      by (rule divide_right_mono [OF assms(2)]) simp
    then have "round_half_even (x / ulp y) \<le> round_half_even (y / ulp y)"
      by (rule round_half_even_mono)
    then have "(of_int (round_half_even (x / ulp y)) :: rat) \<le> of_int (round_half_even (y / ulp y))"
      by (simp only: of_int_le_iff)
    then have "of_int (round_half_even (x / ulp y)) * ulp y
                 \<le> of_int (round_half_even (y / ulp y)) * ulp y"
      by (simp only: mult_le_cancel_right_pos ulp_pos)
    then show ?thesis
      using assms(1) y0 by (simp add: rnd_ulp u)
  next
    case False
    with le have lt: "Ex + 1 \<le> Ey" by simp
    then have ey: "- 1022 \<le> exponent y" "Ey = exponent y"
      by (auto simp: Ex_def Ey_def max_def split: if_splits)
    have "rnd x \<le> pow2 (Ex + 1)"
      using rnd_upper [OF assms(1)] by (simp add: Ex_def)
    also have "\<dots> \<le> pow2 Ey"
      using lt by (rule pow2_mono)
    also have "\<dots> \<le> rnd y"
      using rnd_lower [OF y0 ey(1)] by (simp add: ey(2))
    finally show ?thesis .
  qed
qed

lemma rnd_mono:
  assumes "x \<le> y"
  shows "rnd x \<le> rnd y"
proof -
  consider "0 < x" | "x \<le> 0" "0 \<le> y" | "y < 0" by linarith
  then show ?thesis
  proof cases
    case 1
    then show ?thesis using assms by (rule rnd_mono_pos)
  next
    case 2
    have "rnd x \<le> 0"
      using rnd_nonneg [of "- x"] 2(1) by (simp add: rnd_minus)
    moreover have "0 \<le> rnd y"
      using 2(2) by (rule rnd_nonneg)
    ultimately show ?thesis by simp
  next
    case 3
    then have "rnd (- y) \<le> rnd (- x)"
      using assms by (intro rnd_mono_pos) simp_all
    then show ?thesis by (simp add: rnd_minus)
  qed
qed


lemma rnd_on_grid:
  assumes "0 < v" and "v = of_int m * ulp v"
  shows "rnd v = v"
proof -
  have "v / ulp v = of_int m"
    using assms(2) by (metis nonzero_mult_div_cancel_right ulp_pos less_irrefl)
  then show ?thesis
    using assms by (simp add: rnd_ulp)
qed

lemma rnd_idem_pos:
  assumes "0 < q"
  shows "rnd (rnd q) = rnd q"
proof -
  define E where "E = max (exponent q) (- 1022)"
  define m where "m = round_half_even (q / ulp q)"
  define v where "v = rnd q"
  have u: "ulp q = pow2 (E - 52)"
    by (simp add: ulp_def E_def)
  have v: "v = of_int m * ulp q"
    using assms by (simp add: v_def rnd_ulp m_def)
  have up: "v \<le> pow2 (E + 1)"
    using rnd_upper [OF assms] by (simp add: v_def E_def)
  have v0: "0 \<le> v"
    using assms by (simp add: v_def rnd_nonneg)
  show ?thesis
  proof (cases "v = 0")
    case True
    then show ?thesis by (simp add: v_def [symmetric])
  next
    case False
    with v0 have vpos: "0 < v" by simp
    show ?thesis
    proof (cases "v = pow2 (E + 1)")
      case True
      have "exponent v = E + 1"
      proof (rule exponent_unique [OF vpos])
        show "pow2 (E + 1) \<le> v" using True by simp
        show "v < pow2 (E + 1 + 1)" using True by (simp add: pow2_strict_mono)
      qed
      moreover have "- 1022 \<le> E" by (simp add: E_def)
      ultimately have uv: "ulp v = pow2 (E - 51)"
        by (simp add: ulp_def max_def)
      have "E + 1 = 52 + (E - 51)" by simp
      then have "pow2 (E + 1) = pow2 (52 + (E - 51))" by (simp only:)
      then have g: "pow2 (E + 1) = of_int (2 ^ 52) * pow2 (E - 51)"
        by (simp only: pow2_add pow2_52)
      note True
      also note g
      also have "of_int (2 ^ 52) * pow2 (E - 51) = of_int (2 ^ 52) * ulp v"
        by (simp only: uv)
      finally have "v = of_int (2 ^ 52) * ulp v" .
      then have "rnd v = v"
        by (rule rnd_on_grid [OF vpos])
      then show ?thesis by (simp add: v_def)
    next
      case False
      with up have lt: "v < pow2 (E + 1)" by simp
      have "max (exponent v) (- 1022) = E"
      proof (cases "- 1022 \<le> exponent q")
        case True
        then have e: "E = exponent q" by (simp add: E_def)
        have "pow2 (exponent q) \<le> v"
          using rnd_lower [OF assms True] by (simp add: v_def)
        then have "exponent v = E"
          using lt by (intro exponent_unique [OF vpos]) (simp_all add: e)
        then show ?thesis using True by (simp add: e)
      next
        case False
        then have e: "E = - 1022" by (simp add: E_def)
        have "pow2 (exponent v) \<le> v"
          using exponent_bounds(1) [of v] vpos by simp
        with lt have "pow2 (exponent v) < pow2 (E + 1)" by simp
        then have "exponent v < E + 1"
          using pow2_mono [of "E + 1" "exponent v"] by (cases "exponent v < E + 1") simp_all
        then show ?thesis by (simp add: e)
      qed
      then have "ulp v = ulp q"
        by (simp add: ulp_def E_def)
      then have "v = of_int m * ulp v"
        using v by simp
      then have "rnd v = v"
        by (rule rnd_on_grid [OF vpos])
      then show ?thesis by (simp add: v_def)
    qed
  qed
qed

lemma rnd_idem [simp]: "rnd (rnd q) = rnd q"
proof -
  consider "0 < q" | "q = 0" | "q < 0" by linarith
  then show ?thesis
  proof cases
    case 1
    then show ?thesis by (rule rnd_idem_pos)
  next
    case 2
    then show ?thesis by simp
  next
    case 3
    then have "rnd (rnd (- q)) = rnd (- q)" by (intro rnd_idem_pos) simp
    then show ?thesis by (simp add: rnd_minus)
  qed
qed

subsection \<open>Rounding to two decimals\<close>

lemma py_round2_float [simp]: "rnd (py_round2 x) = py_round2 x"
  by (simp add: py_round2_def)

lemma py_round2_0 [simp]: "py_round2 0 = 0"
  by (simp add: py_round2_def round_half_even_def)

lemma py_round2_mono:
  assumes "x \<le> y"
  shows "py_round2 x \<le> py_round2 y"
proof -
  have "x * 100 \<le> y * 100" using assms by simp
  then have "round_half_even (x * 100) \<le> round_half_even (y * 100)"
    by (rule round_half_even_mono)
  then have "(of_int (round_half_even (x * 100)) :: rat) / 100
              \<le> of_int (round_half_even (y * 100)) / 100"
    by (simp only: of_int_le_iff divide_le_cancel) simp
  then show ?thesis
    unfolding py_round2_def by (rule rnd_mono)
qed

lemma py_round2_nonneg: "0 \<le> x \<Longrightarrow> 0 \<le> py_round2 x"
  using py_round2_mono [of 0 x] by simp


subsection \<open>Rounding a rounded amount again\<close>

lemma round_half_even_error: "\<bar>of_int (round_half_even y) - y\<bar> \<le> 1 / 2"
proof -
  have "of_int \<lfloor>y\<rfloor> \<le> y" "y < of_int \<lfloor>y\<rfloor> + 1" by linarith+
  then show ?thesis
    by (auto simp: round_half_even_def Let_def abs_le_iff)
qed

lemma round_half_even_near:
  assumes "\<bar>y - of_int k\<bar> < 1 / 2"
  shows "round_half_even y = k"
proof (cases "of_int k \<le> y")
  case True
  with assms have "y < of_int k + 1" by linarith
  with True have f: "\<lfloor>y\<rfloor> = k" by (intro floor_unique)
  have "y - of_int \<lfloor>y\<rfloor> < 1 / 2" using assms True by (simp add: f)
  then show ?thesis using f by (simp add: round_half_even_low)
next
  case False
  with assms have "of_int (k - 1) \<le> y" "y < of_int (k - 1) + 1" by simp_all
  then have f: "\<lfloor>y\<rfloor> = k - 1" by (intro floor_unique)
  have "1 / 2 < y - of_int \<lfloor>y\<rfloor>" using assms False by (simp add: f)
  then show ?thesis using f by (simp add: round_half_even_high)
qed

lemma rnd_error: "\<bar>rnd q - q\<bar> \<le> ulp q / 2"
proof (cases "q = 0")
  case True
  then show ?thesis by simp
next
  case False
  have "\<bar>rnd q - q\<bar> = \<bar>of_int (round_half_even (q / ulp q)) - q / ulp q\<bar> * ulp q"
  proof -
    have "rnd q - q = (of_int (round_half_even (q / ulp q)) - q / ulp q) * ulp q"
      using False by (simp add: rnd_ulp left_diff_distrib)
    then show ?thesis by (simp add: abs_mult)
  qed
  also have "\<dots> \<le> 1 / 2 * ulp q"
    by (intro mult_right_mono round_half_even_error) simp
  finally show ?thesis by simp
qed

lemma ulp_small:
  assumes "\<bar>t\<bar> < 2 ^ 44" and "t \<noteq> 0"
  shows "ulp t \<le> 1 / 256"
proof -
  have "pow2 (exponent t) \<le> \<bar>t\<bar>"
    using exponent_bounds(1) [OF assms(2)] .
  with assms(1) have "pow2 (exponent t) < pow2 44"
    by (simp add: pow2_def)
  then have "exponent t < 44"
    using pow2_mono [of 44 "exponent t"] by (cases "exponent t < 44") simp_all
  then have "max (exponent t) (- 1022) - 52 \<le> - 8" by simp
  then have "ulp t \<le> pow2 (- 8)"
    unfolding ulp_def by (rule pow2_mono)
  then show ?thesis by (simp add: pow2_def)
qed

lemma py_round2_idem:
  assumes "\<bar>x\<bar> \<le> 10 ^ 13"
  shows "py_round2 (py_round2 x) = py_round2 x"
proof -
  define k where "k = round_half_even (x * 100)"
  define t where "t = (of_int k :: rat) / 100"
  have p: "py_round2 x = rnd t"
    by (simp add: py_round2_def k_def t_def)
  show ?thesis
  proof (cases "k = 0")
    case True
    then show ?thesis by (simp add: p t_def)
  next
    case False
    then have t0: "t \<noteq> 0" by (simp add: t_def)
    have "- (10 ^ 15) \<le> x * 100" "x * 100 \<le> 10 ^ 15"
      using assms by (simp_all add: abs_le_iff)
    then have "round_half_even (of_int (- (10 ^ 15))) \<le> k" "k \<le> round_half_even (of_int (10 ^ 15))"
      unfolding k_def by (intro round_half_even_mono; simp)+
    then have kb: "- (10 ^ 15) \<le> k" "k \<le> 10 ^ 15"
      by (simp_all only: round_half_even_of_int)
    then have "\<bar>t\<bar> \<le> 10 ^ 13"
      by (simp add: t_def abs_le_iff)
    then have "\<bar>t\<bar> < 2 ^ 44" by simp
    from ulp_small [OF this t0] rnd_error [of t] have "\<bar>rnd t - t\<bar> \<le> 1 / 512"
      by simp
    moreover have "rnd t * 100 - of_int k = 100 * (rnd t - t)"
      by (simp add: t_def)
    ultimately have "\<bar>rnd t * 100 - of_int k\<bar> < 1 / 2"
      by (simp only: abs_mult) simp
    then have "round_half_even (rnd t * 100) = k"
      by (rule round_half_even_near)
    then have "rnd (of_int (round_half_even (rnd t * 100)) / 100) = rnd t"
      by (simp only: t_def)
    then have "py_round2 (rnd t) = rnd t"
      by (simp only: py_round2_def)
    then show ?thesis
      by (simp only: p)
  qed
qed

section \<open>The invariant of a rental period\<close>

lemma validate_allow_past:
  "validate_and_parse_date today s allow = Inr d \<Longrightarrow> validate_and_parse_date 0 s True = Inr d"
  by (auto simp: validate_and_parse_date_def split: option.splits prod.splits if_splits)

lemma RentalPeriod_init_valid:
  assumes "RentalPeriod_init c today s e allow = Inr p"
  shows "valid_period p"
proof -
  from assms obtain so eo where
    so: "validate_and_parse_date today s allow = Inr so" and
    eo: "validate_and_parse_date today e allow = Inr eo" and
    le: "\<not> eo < so" and
    p: "p = \<lparr>period_class = c, start_date = s, end_date = e,
              start_date_obj = so, end_date_obj = eo\<rparr>"
    by (auto simp: RentalPeriod_init_def split: sum.splits if_splits)
  show ?thesis
    using validate_allow_past [OF so] validate_allow_past [OF eo] le
    by (simp add: valid_period_def p)
qed

lemma RentalPeriod_init_class:
  "RentalPeriod_init c today s e allow = Inr p \<Longrightarrow> period_class p = c"
  by (auto simp: RentalPeriod_init_def split: sum.splits if_splits)

lemma set_start_date_valid:
  assumes "valid_period p" and "set_start_date today p s allow = Inr p'"
  shows "valid_period p'"
proof -
  from assms(2) obtain so where
    so: "validate_and_parse_date today s allow = Inr so" and
    le: "\<not> end_date_obj p < so" and
    p': "p' = p\<lparr>start_date := s, start_date_obj := so\<rparr>"
    by (auto simp: set_start_date_def split: sum.splits if_splits)
  show ?thesis
    using validate_allow_past [OF so] le assms(1) by (simp add: valid_period_def p')
qed

lemma set_end_date_valid:
  assumes "valid_period p" and "set_end_date today p e allow = Inr p'"
  shows "valid_period p'"
proof -
  from assms(2) obtain eo where
    eo: "validate_and_parse_date today e allow = Inr eo" and
    le: "\<not> eo < start_date_obj p" and
    p': "p' = p\<lparr>end_date := e, end_date_obj := eo\<rparr>"
    by (auto simp: set_end_date_def split: sum.splits if_splits)
  show ?thesis
    using validate_allow_past [OF eo] le assms(1) by (simp add: valid_period_def p')
qed

text \<open>Rebuilding a valid period from its two strings gives its dates back, in the class asked for.\<close>

lemma rebuild_valid_period:
  "valid_period p \<Longrightarrow>
     RentalPeriod_init c 0 (start_date p) (end_date p) True = Inr (p\<lparr>period_class := c\<rparr>)"
  by (simp add: valid_period_def RentalPeriod_init_def)

lemma overlaps_with_same_class:
  "period_class q = period_class p \<Longrightarrow> overlaps_with p q = Inr (dates_overlap p q)"
  by (simp add: overlaps_with_def dates_overlap_def)

lemma overlaps_with_other_class:
  "period_class q \<noteq> period_class p \<Longrightarrow> overlaps_with p q = Inl TypeError"
  by (simp add: overlaps_with_def)

lemma dates_overlap_sym: "dates_overlap p q = dates_overlap q p"
  by (auto simp: dates_overlap_def)

lemma dates_overlap_refl: "valid_period p \<Longrightarrow> dates_overlap p p"
  by (simp add: dates_overlap_def valid_period_def)

section \<open>Availability after a booking\<close>

lemma is_available_loop_append:
  "is_available_loop (xs @ ys) q = (is_available_loop xs q \<and> is_available_loop ys q)"
  by (induction xs) (auto simp: Let_def split: sum.splits)

text \<open>
  For a period of another class than the one \<open>is_available\<close> rebuilds the entries in,
  every call of \<open>overlaps_with\<close> raises \<open>TypeError\<close> and every entry is skipped: the
  vehicle is available whatever its ledger holds.
\<close>

lemma is_available_loop_other_class:
  "period_class q \<noteq> ''rental_period'' \<Longrightarrow> is_available_loop ds q"
proof (induction ds)
  case Nil
  show ?case by simp
next
  case (Cons d ds)
  have "overlaps_with q ex = Inl TypeError"
    if "RentalPeriod_init ''rental_period'' 0 s e True = Inr ex" for s e ex
    using RentalPeriod_init_class [OF that] Cons.prems
    by (simp add: overlaps_with_def)
  then show ?case
    using Cons by (auto simp: Let_def split: sum.splits)
qed

text \<open>
  An entry with the dates of a valid period \<open>p\<close>, active or completed on the scheduled
  end date, blocks the periods of the class of \<open>rental_period\<close> whose dates overlap
  \<open>p\<close>, and no other period.
\<close>

lemma active_dict_blocks:
  assumes "valid_period p"
    and "rd_start_date d = start_date p"
    and "rd_end_date d = end_date p"
    and "rd_status d = ''active''"
  shows "is_available_loop [d] q
           = (\<not> (period_class q = ''rental_period'' \<and> dates_overlap q p))"
  using rebuild_valid_period [OF assms(1), of "''rental_period''"] assms(2-4)
  by (auto simp: overlaps_with_def dates_overlap_def)

lemma completed_dict_blocks:
  assumes "valid_period p"
    and "rd_start_date d = start_date p"
    and "rd_status d = ''completed''"
    and "rd_actual_end_date d = Some (end_date p)"
  shows "is_available_loop [d] q
           = (\<not> (period_class q = ''rental_period'' \<and> dates_overlap q p))"
  using rebuild_valid_period [OF assms(1), of "''rental_period''"] assms(2-4)
  by (auto simp: overlaps_with_def dates_overlap_def)

lemma add_rental_result:
  assumes "add_rental v p r = Inr v1"
  shows "is_available v p"
    and "v1 = v\<lparr>rental_periods := rental_periods v @ [active_entry p r],
                rental_history := rental_history v @ [active_entry p r]\<rparr>"
  using assms by (auto simp: add_rental_def active_entry_def Let_def split: if_splits)

lemma add_rental_periods:
  assumes "add_rental v p r = Inr v1"
  shows "rental_periods v1 = rental_periods v @ [active_entry p r]"
    and "vehicle_id v1 = vehicle_id v"
  using add_rental_result(2) [OF assms] by simp_all

lemma is_available_after_add:
  assumes "valid_period p" and "add_rental v p r = Inr v1"
  shows "is_available v1 q
           = (is_available v q \<and> \<not> (period_class q = ''rental_period'' \<and> dates_overlap q p))"
proof -
  have "is_available_loop [active_entry p r] q
          = (\<not> (period_class q = ''rental_period'' \<and> dates_overlap q p))"
    by (rule active_dict_blocks [OF assms(1)]) (simp_all add: active_entry_def)
  then show ?thesis
    using add_rental_periods(1) [OF assms(2)]
    by (simp add: is_available_def is_available_loop_append)
qed

lemma add_rental_blocked:
  assumes "valid_period p1" and "period_class p2 = ''rental_period''"
    and "dates_overlap p1 p2" and "add_rental v p1 r1 = Inr v1"
  shows "\<not> is_available v1 p2"
    and "add_rental v1 p2 r2 =
          Inl (VehicleNotAvailableError (vehicle_id v) (start_date p2) (end_date p2))"
proof -
  show na: "\<not> is_available v1 p2"
    using is_available_after_add [OF assms(1,4), of p2] assms(2,3)
    by (simp add: dates_overlap_sym)
  show "add_rental v1 p2 r2 =
          Inl (VehicleNotAvailableError (vehicle_id v) (start_date p2) (end_date p2))"
    using na add_rental_periods(2) [OF assms(4)] by (simp add: add_rental_def)
qed

lemma add_rental_other_class:
  assumes "period_class p \<noteq> ''rental_period''"
  shows "is_available v p"
    and "add_rental v p r =
           Inr (v\<lparr>rental_periods := rental_periods v @ [active_entry p r],
                  rental_history := rental_history v @ [active_entry p r]\<rparr>)"
proof -
  show a: "is_available v p"
    using is_available_loop_other_class [OF assms] by (simp add: is_available_def)
  then show "add_rental v p r =
           Inr (v\<lparr>rental_periods := rental_periods v @ [active_entry p r],
                  rental_history := rental_history v @ [active_entry p r]\<rparr>)"
    by (simp add: add_rental_def active_entry_def Let_def)
qed

section \<open>Objects changed in place\<close>

lemma find_update_first:
  "List.find P xs = Some x \<Longrightarrow> P y \<Longrightarrow> List.find P (update_first P (\<lambda>_. y) xs) = Some y"
  by (induction xs) (auto split: if_splits)

lemma find_vehicle_store_vehicle:
  assumes "find_vehicle_by_id sys vid = Some v" and "vehicle_id v' = vid"
  shows "find_vehicle_by_id (store_vehicle sys vid v') vid = Some v'"
  using assms find_update_first [of "\<lambda>x. vehicle_id x = vid" "vehicles sys" v v']
  by (simp add: find_vehicle_by_id_def store_vehicle_def)

lemma find_vehicle_store_renter:
  "find_vehicle_by_id (store_renter sys rid r) vid = find_vehicle_by_id sys vid"
  by (simp add: find_vehicle_by_id_def store_renter_def)

lemma find_renter_store_renter:
  assumes "find_renter_by_id sys rid = Some r" and "renter_id r' = rid"
  shows "find_renter_by_id (store_renter sys rid r') rid = Some r'"
  using assms find_update_first [of "\<lambda>x. renter_id x = rid" "renters sys" r r']
  by (simp add: find_renter_by_id_def store_renter_def)

lemma find_renter_store_vehicle:
  "find_renter_by_id (store_vehicle sys vid v) rid = find_renter_by_id sys rid"
  by (simp add: find_renter_by_id_def store_vehicle_def)

lemma find_vehicle_id:
  "find_vehicle_by_id sys vid = Some v \<Longrightarrow> vehicle_id v = vid"
  by (auto simp: find_vehicle_by_id_def find_Some_iff)

lemma find_renter_id:
  "find_renter_by_id sys rid = Some r \<Longrightarrow> renter_id r = rid"
  by (auto simp: find_renter_by_id_def find_Some_iff)

lemma rent_vehicles_success:
  assumes "rent_vehicles sys vid rid p = (True, sys1)"
  shows "\<exists>v r v1. find_vehicle_by_id sys vid = Some v \<and> find_renter_by_id sys rid = Some r
            \<and> add_rental v p rid = Inr v1
            \<and> find_vehicle_by_id sys1 vid = Some v1
            \<and> find_renter_by_id sys1 rid
                = Some (renter_add_rental r vid p
                          (calculate_rental_cost v p (calculate_discount r p)))"
proof -
  from assms obtain v r v1 where
    v: "find_vehicle_by_id sys vid = Some v" and
    r: "find_renter_by_id sys rid = Some r" and
    a: "add_rental v p rid = Inr v1" and
    s: "sys1 = store_renter (store_vehicle sys vid v1) rid
               (renter_add_rental r vid p (calculate_rental_cost v p (calculate_discount r p)))"
    by (auto simp: rent_vehicles_def rent_vehicles_try_def Let_def
             split: option.splits if_splits sum.splits prod.splits)
  have "vehicle_id v1 = vid"
    using add_rental_periods(2) [OF a] find_vehicle_id [OF v] by simp
  then have fv: "find_vehicle_by_id sys1 vid = Some v1"
    using find_vehicle_store_vehicle [OF v] by (simp add: s find_vehicle_store_renter)
  have "renter_id (renter_add_rental r vid p
                     (calculate_rental_cost v p (calculate_discount r p))) = rid"
    using find_renter_id [OF r] by (simp add: renter_add_rental_def Let_def)
  moreover have "find_renter_by_id (store_vehicle sys vid v1) rid = Some r"
    using r by (simp add: find_renter_store_vehicle)
  ultimately have fr: "find_renter_by_id sys1 rid
                = Some (renter_add_rental r vid p
                          (calculate_rental_cost v p (calculate_discount r p)))"
    unfolding s by (rule find_renter_store_renter [rotated])
  from v r a fv fr show ?thesis by blast
qed

lemma rent_vehicles_unavailable:
  assumes "find_vehicle_by_id sys vid = Some v" and "\<not> is_available v p"
  shows "rent_vehicles sys vid rid p = (False, sys)"
    and "find_renter_by_id sys rid = Some r \<Longrightarrow> can_rent_vehicle r 5 \<Longrightarrow>
         rent_vehicles_try sys vid rid p =
           (Inl (VehicleNotAvailableError vid (start_date p) (end_date p)), sys)"
  using assms
  by (auto simp: rent_vehicles_def rent_vehicles_try_def split: option.splits)

lemma rent_vehicles_other_class:
  assumes "period_class p \<noteq> ''rental_period''"
    and "find_vehicle_by_id sys vid = Some v"
    and "find_renter_by_id sys rid = Some r"
    and "can_rent_vehicle r 5"
  shows "rent_vehicles sys vid rid p =
           (True,
            store_renter
              (store_vehicle sys vid
                 (v\<lparr>rental_periods := rental_periods v @ [active_entry p rid],
                    rental_history := rental_history v @ [active_entry p rid]\<rparr>))
              rid
              (renter_add_rental r vid p
                 (calculate_rental_cost v p (calculate_discount r p))))"
  using assms(2-4) add_rental_other_class [OF assms(1), of v]
  by (simp add: rent_vehicles_def rent_vehicles_try_def Let_def)

section \<open>Overlapping bookings\<close>

text \<open>The periods of the scenario are the ones the constructor builds on 1 December 2025.\<close>

lemma period1_built:
  "RentalPeriod_init ''rental_period'' today0 ''01-01-2026'' ''05-01-2026'' False = Inr period1"
  by code_simp

lemma period2_built:
  "RentalPeriod_init ''rental_period'' today0 ''03-01-2026'' ''08-01-2026'' False = Inr period2"
  by code_simp

lemma period3_built:
  "RentalPeriod_init ''rental_period'' today0 ''10-01-2026'' ''15-01-2026'' False = Inr period3"
  by code_simp

lemma pkg_period1_built:
  "RentalPeriod_init ''models.rental_period'' today0 ''01-01-2026'' ''05-01-2026'' False
     = Inr pkg_period1"
  by code_simp

lemma pkg_period2_built:
  "RentalPeriod_init ''models.rental_period'' today0 ''03-01-2026'' ''08-01-2026'' False
     = Inr pkg_period2"
  by code_simp

lemma pkg_period3_built:
  "RentalPeriod_init ''models.rental_period'' today0 ''10-01-2026'' ''15-01-2026'' False
     = Inr pkg_period3"
  by code_simp

text \<open>
  When the periods are instances of the class of \<open>rental_period\<close>, as in
  \<open>test_models.py\<close>, the guard works: once one of two overlapping periods is booked,
  by \<open>add_rental\<close> or by \<open>rent_vehicles\<close>, the other is refused with
  \<open>VehicleNotAvailableError\<close> and the state is left alone.
\<close>

lemma overlapping_bookings_same_class:
  assumes "valid_period p1" and "period_class p2 = ''rental_period''"
    and "dates_overlap p1 p2"
  shows "add_rental v p1 r1 = Inr v1 \<Longrightarrow>
           \<not> is_available v1 p2
           \<and> add_rental v1 p2 r2 =
               Inl (VehicleNotAvailableError (vehicle_id v) (start_date p2) (end_date p2))"
    and "rent_vehicles sys vid r1 p1 = (True, sys1) \<Longrightarrow>
           rent_vehicles sys1 vid r2 p2 = (False, sys1)"
    and "rent_vehicles sys vid r1 p1 = (True, sys1) \<Longrightarrow>
           find_renter_by_id sys1 r2 = Some r \<Longrightarrow> can_rent_vehicle r 5 \<Longrightarrow>
           rent_vehicles_try sys1 vid r2 p2 =
             (Inl (VehicleNotAvailableError vid (start_date p2) (end_date p2)), sys1)"
proof -
  show "add_rental v p1 r1 = Inr v1 \<Longrightarrow>
           \<not> is_available v1 p2
           \<and> add_rental v1 p2 r2 =
               Inl (VehicleNotAvailableError (vehicle_id v) (start_date p2) (end_date p2))"
    using add_rental_blocked [OF assms] by blast
  assume ok: "rent_vehicles sys vid r1 p1 = (True, sys1)"
  from rent_vehicles_success [OF ok] obtain v0 v1' where
    a: "add_rental v0 p1 r1 = Inr v1'" and f: "find_vehicle_by_id sys1 vid = Some v1'"
    by blast
  have na: "\<not> is_available v1' p2"
    using add_rental_blocked(1) [OF assms a] .
  show "rent_vehicles sys1 vid r2 p2 = (False, sys1)"
    using rent_vehicles_unavailable(1) [OF f na] .
  show "find_renter_by_id sys1 r2 = Some r \<Longrightarrow> can_rent_vehicle r 5 \<Longrightarrow>
           rent_vehicles_try sys1 vid r2 p2 =
             (Inl (VehicleNotAvailableError vid (start_date p2) (end_date p2)), sys1)"
    using rent_vehicles_unavailable(2) [OF f na] .
qed

lemma rented_system_reached:
  "rent_vehicles full_system ''CAR001'' ''I001'' period1 = (True, rented_system)"
  by code_simp

lemma rented_system_reached_pkg:
  "rent_vehicles full_system ''CAR001'' ''I001'' pkg_period1 = (True, rented_system)"
  by code_simp

text \<open>
  Claim C2 asks that of two overlapping bookings on one vehicle at most one succeeds.
  The code does not keep that for the periods that \<open>routes.py\<close> and
  \<open>test_integration.py\<close> build, which are instances of the class of
  \<open>models.rental_period\<close>: for a period \<open>p2\<close> of any class other than the class of
  \<open>rental_period\<close>, every vehicle is available whatever its ledger holds, \<open>add_rental\<close>
  appends the entry, and \<open>rent_vehicles\<close> succeeds for every vehicle that exists and every
  renter below the limit, and stores the vehicle with the entry appended. So a second
  booking succeeds after a first one with overlapping dates.
\<close>

theorem C2_overlapping_bookings_both_succeed:
  assumes "period_class p2 \<noteq> ''rental_period''"
  shows "is_available v1 p2
     \<and> add_rental v1 p2 r2 =
         Inr (v1\<lparr>rental_periods := rental_periods v1 @ [active_entry p2 r2],
                 rental_history := rental_history v1 @ [active_entry p2 r2]\<rparr>)
     \<and> (\<forall>r. find_vehicle_by_id sys1 vid = Some v1 \<and> find_renter_by_id sys1 r2 = Some r
              \<and> can_rent_vehicle r 5 \<longrightarrow>
            fst (rent_vehicles sys1 vid r2 p2) = True
            \<and> find_vehicle_by_id (snd (rent_vehicles sys1 vid r2 p2)) vid =
                Some (v1\<lparr>rental_periods := rental_periods v1 @ [active_entry p2 r2],
                        rental_history := rental_history v1 @ [active_entry p2 r2]\<rparr>))"
proof -
  let ?v2 = "v1\<lparr>rental_periods := rental_periods v1 @ [active_entry p2 r2],
                rental_history := rental_history v1 @ [active_entry p2 r2]\<rparr>"
  note a = add_rental_other_class(1) [OF assms, of v1]
    add_rental_other_class(2) [OF assms, of v1 r2]
  have e: "fst (rent_vehicles sys1 vid r2 p2) = True
            \<and> find_vehicle_by_id (snd (rent_vehicles sys1 vid r2 p2)) vid = Some ?v2"
    if f: "find_vehicle_by_id sys1 vid = Some v1" and r: "find_renter_by_id sys1 r2 = Some r"
      and c: "can_rent_vehicle r 5" for r
  proof -
    have id: "vehicle_id ?v2 = vid"
      using find_vehicle_id [OF f] by simp
    show ?thesis
      using find_vehicle_store_vehicle [OF f id]
      by (simp add: rent_vehicles_other_class [OF assms f r c] find_vehicle_store_renter)
  qed
  from a e show ?thesis by blast
qed

theorem C2_overlapping_bookings_witness:
  "period_class pkg_period2 \<noteq> ''rental_period''
   \<and> valid_period pkg_period1 \<and> valid_period pkg_period2
   \<and> overlaps_with pkg_period1 pkg_period2 = Inr True
   \<and> rent_vehicles full_system ''CAR001'' ''I001'' pkg_period1 = (True, rented_system)
   \<and> find_vehicle_by_id rented_system ''CAR001'' = Some car001_rented
   \<and> find_renter_by_id rented_system ''C001'' = Some c001
   \<and> can_rent_vehicle c001 5
   \<and> is_currently_rented car001_rented
   \<and> is_available car001_rented pkg_period2
   \<and> fst (rent_vehicles rented_system ''CAR001'' ''C001'' pkg_period2) = True
   \<and> map_option (\<lambda>v. map rd_renter_id (rental_periods v))
        (find_vehicle_by_id (snd (rent_vehicles rented_system ''CAR001'' ''C001'' pkg_period2))
           ''CAR001'') = Some [''I001'', ''C001'']
   \<and> map_option (\<lambda>v. map rd_status (rental_periods v))
        (find_vehicle_by_id (snd (rent_vehicles rented_system ''CAR001'' ''C001'' pkg_period2))
           ''CAR001'') = Some [''active'', ''active'']
   \<and> map_option (\<lambda>v. map rd_start_date (rental_periods v))
        (find_vehicle_by_id (snd (rent_vehicles rented_system ''CAR001'' ''C001'' pkg_period2))
           ''CAR001'') = Some [''01-01-2026'', ''03-01-2026'']
   \<and> map_option (\<lambda>v. map rd_end_date (rental_periods v))
        (find_vehicle_by_id (snd (rent_vehicles rented_system ''CAR001'' ''C001'' pkg_period2))
           ''CAR001'') = Some [''05-01-2026'', ''08-01-2026'']"
proof -
  have c: "period_class pkg_period2 \<noteq> ''rental_period''" by (simp add: pkg_period2_def)
  have v1: "valid_period pkg_period1" using RentalPeriod_init_valid [OF pkg_period1_built] .
  have v2: "valid_period pkg_period2" using RentalPeriod_init_valid [OF pkg_period2_built] .
  have ov: "overlaps_with pkg_period1 pkg_period2 = Inr True" by code_simp
  have fv: "find_vehicle_by_id rented_system ''CAR001'' = Some car001_rented" by code_simp
  have fr: "find_renter_by_id rented_system ''C001'' = Some c001" by code_simp
  have cr: "can_rent_vehicle c001 5" by code_simp
  have ir: "is_currently_rented car001_rented" by code_simp
  note th = C2_overlapping_bookings_both_succeed
              [OF c, of car001_rented "''C001''" rented_system "''CAR001''"]
  from th have av: "is_available car001_rented pkg_period2" by blast
  from th fv fr cr have ok: "fst (rent_vehicles rented_system ''CAR001'' ''C001'' pkg_period2) = True"
    by blast
  from th fv fr cr have st:
    "find_vehicle_by_id (snd (rent_vehicles rented_system ''CAR001'' ''C001'' pkg_period2))
       ''CAR001''
     = Some (car001_rented\<lparr>rental_periods :=
                             rental_periods car001_rented @ [active_entry pkg_period2 ''C001''],
                           rental_history :=
                             rental_history car001_rented @ [active_entry pkg_period2 ''C001'']\<rparr>)"
    by blast
  have l1: "map_option (\<lambda>v. map rd_renter_id (rental_periods v))
        (find_vehicle_by_id (snd (rent_vehicles rented_system ''CAR001'' ''C001'' pkg_period2))
           ''CAR001'') = Some [''I001'', ''C001'']"
    unfolding st by (simp add: car001_rented_def car001_def active_entry_def)
  have l2: "map_option (\<lambda>v. map rd_status (rental_periods v))
        (find_vehicle_by_id (snd (rent_vehicles rented_system ''CAR001'' ''C001'' pkg_period2))
           ''CAR001'') = Some [''active'', ''active'']"
    unfolding st by (simp add: car001_rented_def car001_def active_entry_def)
  have l3: "map_option (\<lambda>v. map rd_start_date (rental_periods v))
        (find_vehicle_by_id (snd (rent_vehicles rented_system ''CAR001'' ''C001'' pkg_period2))
           ''CAR001'') = Some [''01-01-2026'', ''03-01-2026'']"
    unfolding st by (simp add: car001_rented_def car001_def active_entry_def pkg_period2_def)
  have l4: "map_option (\<lambda>v. map rd_end_date (rental_periods v))
        (find_vehicle_by_id (snd (rent_vehicles rented_system ''CAR001'' ''C001'' pkg_period2))
           ''CAR001'') = Some [''05-01-2026'', ''08-01-2026'']"
    unfolding st by (simp add: car001_rented_def car001_def active_entry_def pkg_period2_def)
  from c v1 v2 ov rented_system_reached_pkg fv fr cr ir av ok l1 l2 l3 l4
  show ?thesis by (intro conjI)
qed

section \<open>Renting, then returning on the scheduled date\<close>








section \<open>Discounts\<close>

lemma float_one_tenth: "rnd (1 / 10) = 3602879701896397 / 36028797018963968"
  by code_simp

lemma float_fifteen_hundredths: "rnd (3 / 20) = 5404319552844595 / 36028797018963968"
  by code_simp

text \<open>
  Claim C3. \<open>calculate_discount\<close> is the reference policy for every renter and period,
  and a fraction between 0 and 1. For an individual renter a period of 6 days gives 0.0,
  of 7 days 0.10 and of 14 days 0.10; for a corporate renter periods of 1 day and of 30
  days both give 0.15; for staff the discount is 0. The literals are the floats nearest
  to the decimals.
\<close>

theorem C3_discount_policy:
  "calculate_discount r p = reference_discount (user_kind r) (calculate_duration p)
   \<and> 0 \<le> calculate_discount r p \<and> calculate_discount r p \<le> 1
   \<and> map_sum id (\<lambda>p. (calculate_duration p, calculate_discount i001 p))
        (RentalPeriod_init ''rental_period'' today0 ''01-01-2026'' ''06-01-2026'' False)
          = Inr (6, 0)
   \<and> map_sum id (\<lambda>p. (calculate_duration p, calculate_discount i001 p))
        (RentalPeriod_init ''rental_period'' today0 ''01-01-2026'' ''07-01-2026'' False)
          = Inr (7, rnd (10 / 100))
   \<and> map_sum id (\<lambda>p. (calculate_duration p, calculate_discount i001 p))
        (RentalPeriod_init ''rental_period'' today0 ''01-01-2026'' ''14-01-2026'' False)
          = Inr (14, rnd (10 / 100))
   \<and> map_sum id (\<lambda>p. (calculate_duration p, calculate_discount c001 p))
        (RentalPeriod_init ''rental_period'' today0 ''01-01-2026'' ''01-01-2026'' False)
          = Inr (1, rnd (15 / 100))
   \<and> map_sum id (\<lambda>p. (calculate_duration p, calculate_discount c001 p))
        (RentalPeriod_init ''rental_period'' today0 ''01-01-2026'' ''30-01-2026'' False)
          = Inr (30, rnd (15 / 100))
   \<and> map_sum id (\<lambda>p. (calculate_duration p, calculate_discount s001 p))
        (RentalPeriod_init ''rental_period'' today0 ''01-01-2026'' ''30-01-2026'' False)
          = Inr (30, 0)"
proof -
  have g: "calculate_discount r p = reference_discount (user_kind r) (calculate_duration p)"
    by (simp add: calculate_discount_def reference_discount_def)
  have b: "0 \<le> calculate_discount r p \<and> calculate_discount r p \<le> 1"
    by (simp add: calculate_discount_def float_one_tenth float_fifteen_hundredths
             split: user_type.splits)
  have c1: "map_sum id (\<lambda>p. (calculate_duration p, calculate_discount i001 p))
        (RentalPeriod_init ''rental_period'' today0 ''01-01-2026'' ''06-01-2026'' False)
          = Inr (6, 0)"
    by code_simp
  have c2: "map_sum id (\<lambda>p. (calculate_duration p, calculate_discount i001 p))
        (RentalPeriod_init ''rental_period'' today0 ''01-01-2026'' ''07-01-2026'' False)
          = Inr (7, rnd (10 / 100))"
    by code_simp
  have c3: "map_sum id (\<lambda>p. (calculate_duration p, calculate_discount i001 p))
        (RentalPeriod_init ''rental_period'' today0 ''01-01-2026'' ''14-01-2026'' False)
          = Inr (14, rnd (10 / 100))"
    by code_simp
  have c4: "map_sum id (\<lambda>p. (calculate_duration p, calculate_discount c001 p))
        (RentalPeriod_init ''rental_period'' today0 ''01-01-2026'' ''01-01-2026'' False)
          = Inr (1, rnd (15 / 100))"
    by code_simp
  have c5: "map_sum id (\<lambda>p. (calculate_duration p, calculate_discount c001 p))
        (RentalPeriod_init ''rental_period'' today0 ''01-01-2026'' ''30-01-2026'' False)
          = Inr (30, rnd (15 / 100))"
    by code_simp
  have c6: "map_sum id (\<lambda>p. (calculate_duration p, calculate_discount s001 p))
        (RentalPeriod_init ''rental_period'' today0 ''01-01-2026'' ''30-01-2026'' False)
          = Inr (30, 0)"
    by code_simp
  from g b c1 c2 c3 c4 c5 c6 show ?thesis by (intro conjI) simp_all
qed

section \<open>Rental records\<close>

lemma rent_vehicles_records:
  "rental_records (snd (rent_vehicles sys vid rid p)) = rental_records sys
   \<and> next_record_id (snd (rent_vehicles sys vid rid p)) = next_record_id sys"
  by (auto simp: rent_vehicles_def rent_vehicles_try_def store_vehicle_def store_renter_def
        Let_def split: option.splits sum.splits)

lemma add_rental_record_appends:
  "\<exists>rec. add_rental_record sys vid rid s e cost discount =
      (Inr rec, sys\<lparr>next_record_id := next_record_id sys + 1,
                   rental_records := rental_records sys @ [rec]\<rparr>)
    \<and> rec_vehicle_id rec = vid \<and> rec_renter_id rec = rid \<and> rec_start_date rec = s
    \<and> rec_end_date rec = e \<and> status rec = ''active''"
proof -
  have "validate_status ''active'' = Inr ''active''" by code_simp
  then show ?thesis
    by (simp add: add_rental_record_def RentalRecord_init_def)
qed

text \<open>
  Claim C6 asks that a successful \<open>rent_vehicles\<close> appends a \<open>RentalRecord\<close> to the
  engine's list. The code does not: \<open>rent_vehicles\<close> never changes \<open>rental_records\<close>,
  whatever its arguments, and only \<open>add_rental_record\<close>, which nothing calls, appends.
  After the successful rent of the scenario the list is still empty and both queries
  return nothing.
\<close>

theorem C6_rent_creates_no_record:
  "rental_records (snd (rent_vehicles sys vid rid p)) = rental_records sys
   \<and> fst (rent_vehicles full_system ''CAR001'' ''I001'' period1) = True
   \<and> rental_records (snd (rent_vehicles full_system ''CAR001'' ''I001'' period1)) = []
   \<and> get_rental_records_by_renter
        (snd (rent_vehicles full_system ''CAR001'' ''I001'' period1)) ''I001'' = []
   \<and> get_rental_records_by_vehicle
        (snd (rent_vehicles full_system ''CAR001'' ''I001'' period1)) ''CAR001'' = []"
proof -
  have s: "fst (rent_vehicles full_system ''CAR001'' ''I001'' period1) = True"
    by code_simp
  have e: "rental_records full_system = []"
    by (simp add: full_system_def)
  show ?thesis
    using rent_vehicles_records [of sys vid rid p]
      rent_vehicles_records [of full_system "''CAR001''" "''I001''" period1] s e
    by (simp add: get_rental_records_by_renter_def get_rental_records_by_vehicle_def)
qed

section \<open>The return that fails on the renter's side\<close>

lemma update_first_split:
  "list_ex P xs \<Longrightarrow>
     \<exists>ys d zs. xs = ys @ d # zs \<and> P d \<and> update_first P f xs = ys @ f d # zs"
proof (induction xs)
  case Nil
  then show ?case by simp
next
  case (Cons x xs)
  show ?case
  proof (cases "P x")
    case True
    then have "x # xs = [] @ x # xs \<and> P x \<and> update_first P f (x # xs) = [] @ f x # xs"
      by simp
    then show ?thesis by blast
  next
    case False
    with Cons obtain ys d zs where
      "xs = ys @ d # zs" "P d" "update_first P f xs = ys @ f d # zs"
      by auto
    with False have
      "x # xs = (x # ys) @ d # zs \<and> P d \<and> update_first P f (x # xs) = (x # ys) @ f d # zs"
      by simp
    then show ?thesis by blast
  qed
qed

text \<open>
  What \<open>remove_rental\<close> with no actual return date does when it succeeds: one active
  entry of the period becomes completed, with the scheduled end as the actual one. The
  entry rebuilds to the same dates as before, so no period gains or loses availability.
\<close>

lemma remove_rental_success:
  assumes "remove_rental v p None = (True, v')"
  shows "is_currently_rented v"
    and "vehicle_id v' = vehicle_id v"
    and "list_ex (matches_entry p ''completed'') (rental_periods v')"
    and "rental_periods v' \<noteq> rental_periods v"
    and "length (rental_periods v') = length (rental_periods v)"
    and "is_available v' q = is_available v q"
    and "valid_period p \<Longrightarrow> period_class p = ''rental_period'' \<Longrightarrow> \<not> is_available v' p"
proof -
  let ?f = "\<lambda>d. d\<lparr>rd_status := ''completed'', rd_actual_end_date := Some (end_date p)\<rparr>"
  from assms have ex: "list_ex (matches_entry p ''active'') (rental_periods v)"
    and v': "rental_periods v' = update_first (matches_entry p ''active'') ?f (rental_periods v)"
    and id: "vehicle_id v' = vehicle_id v"
    by (auto simp: remove_rental_def Let_def split: if_splits)
  show "vehicle_id v' = vehicle_id v" by (rule id)
  show "is_currently_rented v"
    using ex by (auto simp: is_currently_rented_def matches_entry_def list_ex_iff)
  from update_first_split [OF ex, of ?f] obtain ys d zs where
    m: "matches_entry p ''active'' d" and
    w: "rental_periods v = ys @ d # zs" and
    u: "rental_periods v' = ys @ ?f d # zs"
    by (auto simp: v')
  show "list_ex (matches_entry p ''completed'') (rental_periods v')"
    using m by (simp add: u matches_entry_def)
  have "?f d \<noteq> d"
  proof
    assume "?f d = d"
    then have "rd_status (?f d) = rd_status d" by simp
    with m show False by (simp add: matches_entry_def)
  qed
  then show "rental_periods v' \<noteq> rental_periods v"
    by (simp add: u w)
  show "length (rental_periods v') = length (rental_periods v)"
    by (simp add: u w)
  have same: "is_available_loop [?f d] x = is_available_loop [d] x" for x
    using m by (simp add: matches_entry_def)
  show "is_available v' q = is_available v q"
    using is_available_loop_append [of ys "?f d # zs" q]
      is_available_loop_append [of "[?f d]" zs q]
      is_available_loop_append [of ys "d # zs" q]
      is_available_loop_append [of "[d]" zs q] same [of q]
    by (simp add: is_available_def u w)
  assume vp: "valid_period p" and c: "period_class p = ''rental_period''"
  have "is_available_loop [?f d] p
          = (\<not> (period_class p = ''rental_period'' \<and> dates_overlap p p))"
    using m by (intro completed_dict_blocks [OF vp]) (simp_all add: matches_entry_def)
  then have "\<not> is_available_loop [?f d] p"
    using dates_overlap_refl [OF vp] c by simp
  then show "\<not> is_available v' p"
    using is_available_loop_append [of ys "?f d # zs" p]
      is_available_loop_append [of "[?f d]" zs p]
    by (simp add: is_available_def u)
qed

text \<open>
  Claim C1 asks that a return whose renter side fails puts the vehicle's entry back to
  active, so that the vehicle is as it was before the call. The code calls \<open>add_rental\<close>
  for that, not \<open>restore_active_rental\<close>. For every valid period and every state in
  which the vehicle side succeeds and the renter side fails, the call returns \<open>False\<close>
  and the entry that \<open>remove_rental\<close> has completed stays completed, so the ledger is
  not the one before the call. With a period of the class of \<open>rental_period\<close> the
  completed entry blocks the very period: \<open>add_rental\<close> raises
  \<open>VehicleNotAvailableError\<close>, the handler returns \<open>False\<close>, and the vehicle is stored
  as \<open>remove_rental\<close> left it. With a period of another class \<open>add_rental\<close> finds the
  vehicle available and appends a second, active entry in the name of the renter of the
  call, next to the completed one.
\<close>

theorem C1_failed_return_is_not_rolled_back:
  assumes "valid_period p"
    and "find_vehicle_by_id sys vid = Some v"
    and "find_renter_by_id sys rid = Some r"
    and "remove_rental v p None = (True, v')"
    and "fst (complete_rental r vid p) = False"
  shows "return_vehicles sys vid rid p
           = (False,
              store_vehicle sys vid
                (if period_class p = ''rental_period'' then v'
                 else v'\<lparr>rental_periods := rental_periods v' @ [active_entry p rid],
                         rental_history := rental_history v' @ [active_entry p rid]\<rparr>))
     \<and> fst (return_vehicles_try sys vid rid p)
         = (if period_class p = ''rental_period''
            then Inl (VehicleNotAvailableError vid (start_date p) (end_date p))
            else Inr False)
     \<and> find_vehicle_by_id (snd (return_vehicles sys vid rid p)) vid
         = Some (if period_class p = ''rental_period'' then v'
                 else v'\<lparr>rental_periods := rental_periods v' @ [active_entry p rid],
                         rental_history := rental_history v' @ [active_entry p rid]\<rparr>)
     \<and> list_ex (matches_entry p ''completed'') (rental_periods v')
     \<and> rental_periods v' \<noteq> rental_periods v
     \<and> rental_periods v' @ [active_entry p rid] \<noteq> rental_periods v"
proof -
  let ?w = "v'\<lparr>rental_periods := rental_periods v' @ [active_entry p rid],
               rental_history := rental_history v' @ [active_entry p rid]\<rparr>"
  let ?res = "if period_class p = ''rental_period'' then v' else ?w"
  note rs = remove_rental_success [OF assms(4)]
  have id: "vehicle_id v' = vid"
    using rs(2) find_vehicle_id [OF assms(2)] by simp
  have t: "return_vehicles_try sys vid rid p =
      (if period_class p = ''rental_period''
       then Inl (VehicleNotAvailableError vid (start_date p) (end_date p))
       else Inr False, store_vehicle sys vid ?res)"
  proof (cases "period_class p = ''rental_period''")
    case True
    have "add_rental v' p rid = Inl (VehicleNotAvailableError vid (start_date p) (end_date p))"
      using rs(7) [OF assms(1) True] id by (simp add: add_rental_def)
    then show ?thesis
      using assms(2,3,4,5) rs(1) True
      by (cases "complete_rental r vid p") (simp add: return_vehicles_try_def)
  next
    case False
    have "add_rental v' p rid = Inr ?w"
      using add_rental_other_class(2) [OF False] .
    then show ?thesis
      using assms(2,3,4,5) rs(1) False
      by (cases "complete_rental r vid p") (simp add: return_vehicles_try_def)
  qed
  have r: "return_vehicles sys vid rid p = (False, store_vehicle sys vid ?res)"
    by (simp add: return_vehicles_def t)
  have t': "fst (return_vehicles_try sys vid rid p)
         = (if period_class p = ''rental_period''
            then Inl (VehicleNotAvailableError vid (start_date p) (end_date p))
            else Inr False)"
    by (simp add: t)
  have "vehicle_id ?res = vid"
    using id by simp
  then have "find_vehicle_by_id (store_vehicle sys vid ?res) vid = Some ?res"
    by (rule find_vehicle_store_vehicle [OF assms(2)])
  then have f: "find_vehicle_by_id (snd (return_vehicles sys vid rid p)) vid = Some ?res"
    by (simp add: r)
  have l: "rental_periods v' @ [active_entry p rid] \<noteq> rental_periods v"
  proof
    assume "rental_periods v' @ [active_entry p rid] = rental_periods v"
    then have "length (rental_periods v' @ [active_entry p rid]) = length (rental_periods v)"
      by simp
    with rs(5) show False by simp
  qed
  from r t' f rs(3) rs(4) l show ?thesis by (intro conjI)
qed

text \<open>The rollback that the vehicle offers does restore the entry in the scenario.\<close>

lemma restore_active_rental_restores:
  "restore_active_rental car001_completed period1 = (True, car001_rented)"
  by code_simp

theorem C1_failed_return_witness:
  "valid_period period1 \<and> valid_period pkg_period1
   \<and> find_vehicle_by_id rented_system ''CAR001'' = Some car001_rented
   \<and> find_renter_by_id rented_system ''C001'' = Some c001
   \<and> remove_rental car001_rented period1 None = (True, car001_completed)
   \<and> remove_rental car001_rented pkg_period1 None = (True, car001_completed)
   \<and> fst (complete_rental c001 ''CAR001'' period1) = False
   \<and> fst (complete_rental c001 ''CAR001'' pkg_period1) = False
   \<and> is_currently_rented car001_rented
   \<and> map rd_status (rental_periods car001_rented) = [''active'']
   \<and> fst (return_vehicles rented_system ''CAR001'' ''C001'' period1) = False
   \<and> find_vehicle_by_id (snd (return_vehicles rented_system ''CAR001'' ''C001'' period1))
        ''CAR001'' = Some car001_completed
   \<and> map rd_status (rental_periods car001_completed) = [''completed'']
   \<and> \<not> is_currently_rented car001_completed
   \<and> fst (return_vehicles rented_system ''CAR001'' ''C001'' pkg_period1) = False
   \<and> find_vehicle_by_id (snd (return_vehicles rented_system ''CAR001'' ''C001'' pkg_period1))
        ''CAR001'' = Some car001_reentered
   \<and> map rd_status (rental_periods car001_reentered) = [''completed'', ''active'']
   \<and> map rd_renter_id (rental_periods car001_reentered) = [''I001'', ''C001'']
   \<and> is_currently_rented car001_reentered"
proof -
  have v: "valid_period period1" using RentalPeriod_init_valid [OF period1_built] .
  have v': "valid_period pkg_period1" using RentalPeriod_init_valid [OF pkg_period1_built] .
  have fv: "find_vehicle_by_id rented_system ''CAR001'' = Some car001_rented" by code_simp
  have fr: "find_renter_by_id rented_system ''C001'' = Some c001" by code_simp
  have rm: "remove_rental car001_rented period1 None = (True, car001_completed)" by code_simp
  have rm': "remove_rental car001_rented pkg_period1 None = (True, car001_completed)"
    by code_simp
  have cr: "fst (complete_rental c001 ''CAR001'' period1) = False" by code_simp
  have cr': "fst (complete_rental c001 ''CAR001'' pkg_period1) = False" by code_simp
  have a: "is_currently_rented car001_rented" by code_simp
  have sa: "map rd_status (rental_periods car001_rented) = [''active'']" by code_simp
  have st: "map rd_status (rental_periods car001_completed) = [''completed'']" by code_simp
  have n: "\<not> is_currently_rented car001_completed" by code_simp
  have st': "map rd_status (rental_periods car001_reentered) = [''completed'', ''active'']"
    by code_simp
  have sr: "map rd_renter_id (rental_periods car001_reentered) = [''I001'', ''C001'']"
    by code_simp
  have a': "is_currently_rented car001_reentered" by code_simp
  have c: "period_class period1 = ''rental_period''" by (simp add: period1_def)
  have c': "period_class pkg_period1 \<noteq> ''rental_period''" by (simp add: pkg_period1_def)
  have w: "car001_completed
             \<lparr>rental_periods :=
                rental_periods car001_completed @ [active_entry pkg_period1 ''C001''],
              rental_history :=
                rental_history car001_completed @ [active_entry pkg_period1 ''C001'']\<rparr>
           = car001_reentered"
    by code_simp
  note th = C1_failed_return_is_not_rolled_back [OF v fv fr rm cr]
  note th' = C1_failed_return_is_not_rolled_back [OF v' fv fr rm' cr']
  from th have f: "fst (return_vehicles rented_system ''CAR001'' ''C001'' period1) = False"
    by simp
  from th [THEN conjunct2, THEN conjunct2, THEN conjunct1]
  have g: "find_vehicle_by_id
      (snd (return_vehicles rented_system ''CAR001'' ''C001'' period1)) ''CAR001''
        = Some car001_completed"
    by (simp only: c simp_thms if_True)
  from th' have f': "fst (return_vehicles rented_system ''CAR001'' ''C001'' pkg_period1) = False"
    by simp
  from th' [THEN conjunct2, THEN conjunct2, THEN conjunct1]
  have g': "find_vehicle_by_id
      (snd (return_vehicles rented_system ''CAR001'' ''C001'' pkg_period1)) ''CAR001''
        = Some car001_reentered"
    by (simp only: c' simp_thms if_False w)
  from v v' fv fr rm rm' cr cr' a sa f g st n f' g' st' sr a' show ?thesis by (intro conjI)
qed

section \<open>Status and cost of a rental record\<close>

lemma validate_status_member:
  "validate_status s = Inr s' \<Longrightarrow> s' \<in> set VALID_STATUSES"
  by (auto simp: validate_status_def split: if_splits)

lemma apply_update_valid:
  "apply_update r u = Inr r' \<Longrightarrow> status r' \<in> set VALID_STATUSES"
  by (cases u)
     (auto simp: set_status_def mark_as_active_def mark_as_completed_def mark_as_overdue_def
        mark_as_cancelled_def split: sum.splits dest: validate_status_member)

lemma apply_updates_valid:
  "status r \<in> set VALID_STATUSES \<Longrightarrow> status (apply_updates r us) \<in> set VALID_STATUSES"
proof (induction us arbitrary: r)
  case Nil
  then show ?case by simp
next
  case (Cons u us)
  show ?case
  proof (cases "apply_update r u")
    case (Inl err)
    with Cons show ?thesis by simp
  next
    case (Inr r')
    with Cons apply_update_valid [OF Inr] show ?thesis by simp
  qed
qed

lemma validate_literals:
  "validate_status ''active'' = Inr ''active''"
  "validate_status ''completed'' = Inr ''completed''"
  "validate_status ''overdue'' = Inr ''overdue''"
  "validate_status ''cancelled'' = Inr ''cancelled''"
  by code_simp+

text \<open>
  Claim C8, as amended. Through any sequence of calls of \<open>set_status\<close> and the
  \<open>mark_as_*\<close> helpers the status of a record stays one of the five valid statuses;
  \<open>set_status\<close> accepts exactly the strings that are valid once trimmed and put in
  lower case, and rejects the others with \<open>ValueError\<close>; each helper sets its own target
  status. None of them reads the status the record has, so the order of the states is
  the callers' to keep.
\<close>

theorem C8_status_updates:
  "(status r \<in> set VALID_STATUSES \<longrightarrow>
      status (apply_updates r us) \<in> set VALID_STATUSES)
   \<and> set_status r s =
       (if strip (lower s) \<in> set VALID_STATUSES then Inr (r\<lparr>status := strip (lower s)\<rparr>)
        else Inl ValueError)
   \<and> mark_as_active r = Inr (r\<lparr>status := ''active''\<rparr>)
   \<and> mark_as_completed r = Inr (r\<lparr>status := ''completed''\<rparr>)
   \<and> mark_as_overdue r = Inr (r\<lparr>status := ''overdue''\<rparr>)
   \<and> mark_as_cancelled r = Inr (r\<lparr>status := ''cancelled''\<rparr>)"
  using apply_updates_valid [of r us]
  by (simp add: set_status_def validate_status_def mark_as_active_def mark_as_completed_def
        mark_as_overdue_def mark_as_cancelled_def validate_literals [unfolded validate_status_def])

theorem C8_status_updates_witness:
  "status completed_record \<in> set VALID_STATUSES
   \<and> status (apply_updates completed_record [MarkOverdue, SetStatus ''returned'', MarkActive])
       = ''active''
   \<and> status (apply_updates completed_record [MarkOverdue, SetStatus ''returned'', MarkActive])
       \<in> set VALID_STATUSES"
proof -
  have m: "status completed_record \<in> set VALID_STATUSES" by code_simp
  have a: "status (apply_updates completed_record [MarkOverdue, SetStatus ''returned'', MarkActive])
       = ''active''" by code_simp
  have i: "status (apply_updates completed_record [MarkOverdue, SetStatus ''returned'', MarkActive])
       \<in> set VALID_STATUSES"
    using C8_status_updates [of completed_record
      "[MarkOverdue, SetStatus ''returned'', MarkActive]", THEN conjunct1] m
    by blast
  from m a i show ?thesis by (intro conjI)
qed

text \<open>
  The claim as stated fails: \<open>mark_as_active\<close> takes a completed record back to active,
  a step down in the order of the states.
\<close>

theorem C8_terminal_state_left_counterexample:
  "status completed_record = ''completed''
   \<and> mark_as_active completed_record = Inr (completed_record\<lparr>status := ''active''\<rparr>)
   \<and> status (apply_updates completed_record [MarkActive]) = ''active''
   \<and> status_rank (status (apply_updates completed_record [MarkActive]))
       < status_rank (status completed_record)"
  by code_simp

lemma set_rental_cost_nonneg:
  "set_rental_cost r cost = Inr r' \<Longrightarrow> 0 \<le> rental_cost r'"
  by (auto simp: set_rental_cost_def py_round2_nonneg split: if_splits)

text \<open>
  Claim C9 asks that the cost of a record is never negative. \<open>set_rental_cost\<close> rejects
  a negative cost, the constructor stores whatever it is given: a record built with the
  cost \<open>-1.0\<close>, directly or through \<open>add_rental_record\<close>, has that cost.
\<close>

theorem C9_constructor_keeps_negative_cost:
  "map_sum id rental_cost
     (RentalRecord_init ''R00001'' ''CAR001'' ''I001'' ''01-01-2026'' ''05-01-2026'' (- 1)
        ''pending'' 0) = Inr (- 1)
   \<and> map_sum id rental_cost
       (fst (add_rental_record full_system ''CAR001'' ''I001'' ''01-01-2026'' ''05-01-2026''
          (- 1) 0)) = Inr (- 1)
   \<and> set_rental_cost completed_record (- 1) = Inl ValueError"
  by code_simp


section \<open>Discounted cost\<close>

lemma float_consts: "rnd (2 ^ 44) = 2 ^ 44" "rnd (- (2 ^ 44)) = - (2 ^ 44)"
  "py_round2 (10 ^ 13) = 10 ^ 13"
  by code_simp+

lemma py_round2_cents:
  assumes "\<bar>t\<bar> < 2 ^ 44" and "t = of_int k / 100"
  shows "py_round2 (rnd t) = rnd t"
proof (cases "t = 0")
  case True
  then show ?thesis by simp
next
  case False
  from ulp_small [OF assms(1) False] rnd_error [of t] have "\<bar>rnd t - t\<bar> \<le> 1 / 512"
    by simp
  moreover have "rnd t * 100 - of_int k = 100 * (rnd t - t)"
    by (simp add: assms(2))
  ultimately have "\<bar>rnd t * 100 - of_int k\<bar> < 1 / 2"
    by (simp only: abs_mult) simp
  then have "round_half_even (rnd t * 100) = k"
    by (rule round_half_even_near)
  then have "rnd (of_int (round_half_even (rnd t * 100)) / 100) = rnd t"
    by (simp only: assms(2))
  then show ?thesis
    by (simp only: py_round2_def)
qed

lemma py_round2_fixed:
  assumes "\<bar>py_round2 x\<bar> \<le> 10 ^ 13"
  shows "py_round2 (py_round2 x) = py_round2 x"
proof -
  define k where "k = round_half_even (x * 100)"
  define t where "t = (of_int k :: rat) / 100"
  have p: "py_round2 x = rnd t"
    by (simp add: py_round2_def k_def t_def)
  have "\<bar>t\<bar> < 2 ^ 44"
  proof (rule ccontr)
    assume "\<not> \<bar>t\<bar> < 2 ^ 44"
    then consider "2 ^ 44 \<le> t" | "t \<le> - (2 ^ 44)" by (auto simp: abs_less_iff not_less)
    then show False
    proof cases
      case 1
      from rnd_mono [OF 1] have "2 ^ 44 \<le> rnd t" by (simp only: float_consts)
      with assms show False by (simp add: p)
    next
      case 2
      from rnd_mono [OF 2] have "rnd t \<le> - (2 ^ 44)" by (simp only: float_consts)
      with assms show False by (simp add: p)
    qed
  qed
  from py_round2_cents [OF this t_def] show ?thesis
    by (simp only: p)
qed

lemma clamp_in_range: "0 \<le> d \<Longrightarrow> d \<le> 1 \<Longrightarrow> max 0 (min 1 d) = (d::rat)"
  by (simp add: max_def min_def)

lemma apply_discount_clamped:
  "apply_discount c d = py_round2 (fsub c (fmul c (max 0 (min 1 d))))"
  by (cases "0 \<le> d \<and> d \<le> 1") (auto simp: apply_discount_def Let_def clamp_in_range)

lemma apply_discount_bounds:
  assumes "is_float c" and "0 \<le> c"
  shows "0 \<le> apply_discount c d" and "apply_discount c d \<le> py_round2 c"
    and "0 \<le> fsub c (fmul c (max 0 (min 1 d)))" and "fsub c (fmul c (max 0 (min 1 d))) \<le> c"
proof -
  define k where "k = max 0 (min 1 d)"
  have k: "0 \<le> k" "k \<le> 1" by (simp_all add: k_def)
  have c: "rnd c = c" using assms(1) by (simp add: is_float_def)
  have "0 \<le> c * k" using assms(2) k(1) by simp
  then have a0: "0 \<le> fmul c k"
    unfolding fmul_def by (rule rnd_nonneg)
  have "c * k \<le> c" using assms(2) k(2) by (simp add: mult_left_le)
  then have a1: "fmul c k \<le> c"
    unfolding fmul_def using rnd_mono [of "c * k" c] by (simp add: c)
  have "0 \<le> c - fmul c k" using a1 by simp
  then show f0: "0 \<le> fsub c (fmul c (max 0 (min 1 d)))"
    unfolding fsub_def k_def [symmetric] by (rule rnd_nonneg)
  have "c - fmul c k \<le> c" using a0 by simp
  then show f1: "fsub c (fmul c (max 0 (min 1 d))) \<le> c"
    unfolding fsub_def k_def [symmetric] using rnd_mono [of "c - fmul c k" c] by (simp add: c)
  show "0 \<le> apply_discount c d"
    unfolding apply_discount_clamped using f0 by (rule py_round2_nonneg)
  show "apply_discount c d \<le> py_round2 c"
    unfolding apply_discount_clamped using f1 by (rule py_round2_mono)
qed




lemma valid_period_duration: "valid_period p \<Longrightarrow> 1 \<le> calculate_duration p"
  by (simp add: valid_period_def calculate_duration_def)

lemma base_cost_float: "is_float (get_base_rental_cost v p)"
  by (simp add: is_float_def get_base_rental_cost_def)

lemma base_cost_nonneg:
  assumes "valid_period p" and "0 \<le> daily_rate v"
  shows "0 \<le> get_base_rental_cost v p"
proof -
  have "0 \<le> float_of_int (calculate_duration p)"
    unfolding float_of_int_def using valid_period_duration [OF assms(1)]
    by (intro rnd_nonneg) simp
  then have "0 \<le> float_of_int (calculate_duration p) * daily_rate v"
    using assms(2) by simp
  then have "0 \<le> fmul (float_of_int (calculate_duration p)) (daily_rate v)"
    unfolding fmul_def by (rule rnd_nonneg)
  then show ?thesis
    unfolding get_base_rental_cost_def by (rule py_round2_nonneg)
qed

text \<open>
  Claim C4, as amended. For a valid period, a discount \<open>d\<close> in \<open>[0, 1]\<close>, a daily rate
  that is not negative and a base cost \<open>b = round(duration_days * daily_rate, 2)\<close> of at
  most \<open>10 ^ 13\<close>, the cost of a Car is \<open>round(b - b * d, 2)\<close> in float arithmetic: no
  variant premium is applied (it is the cost of a Truck with the same rate), the final
  \<open>round\<close> of \<open>calculate_rental_cost\<close> changes nothing, and the cost lies between 0
  and \<open>b\<close>. For the daily rate 65.00 and the 5-day period 01-01-2026..05-01-2026 the
  cost is 325.00 with discount 0.0 and 276.25 with discount 0.15.
\<close>

theorem C4_car_cost:
  assumes "valid_period p" and "kind v = Car" and "0 \<le> d" and "d \<le> 1"
    and "0 \<le> daily_rate v" and "get_base_rental_cost v p \<le> 10 ^ 13"
  shows "get_base_rental_cost v p
           = py_round2 (fmul (float_of_int (calculate_duration p)) (daily_rate v))
     \<and> calculate_rental_cost v p d
           = py_round2 (fsub (get_base_rental_cost v p) (fmul (get_base_rental_cost v p) d))
     \<and> calculate_rental_cost v p d = calculate_rental_cost (v\<lparr>kind := Truck\<rparr>) p d
     \<and> 0 \<le> calculate_rental_cost v p d
     \<and> calculate_rental_cost v p d \<le> get_base_rental_cost v p
     \<and> RentalPeriod_init ''rental_period'' today0 ''01-01-2026'' ''05-01-2026'' False = Inr period1
     \<and> calculate_duration period1 = 5
     \<and> daily_rate car001 = 65
     \<and> calculate_rental_cost car001 period1 0 = 325
     \<and> calculate_rental_cost car001 period1 (rnd (15 / 100)) = 27625 / 100"
proof -
  define b where "b = get_base_rental_cost v p"
  have bf: "is_float b" unfolding b_def by (rule base_cost_float)
  have b0: "0 \<le> b" unfolding b_def using assms(1,5) by (rule base_cost_nonneg)
  have b1: "b \<le> 10 ^ 13" unfolding b_def by (rule assms(6))
  have cl: "max 0 (min 1 d) = d" using assms(3,4) by (rule clamp_in_range)
  note ab = apply_discount_bounds [OF bf b0, of d, unfolded cl]
  have ad: "apply_discount b d = py_round2 (fsub b (fmul b d))"
    using apply_discount_clamped [of b d] by (simp only: cl)
  have "py_round2 b = b"
  proof -
    have "\<bar>py_round2 (fmul (float_of_int (calculate_duration p)) (daily_rate v))\<bar> \<le> 10 ^ 13"
      using b0 b1 by (simp add: b_def get_base_rental_cost_def)
    from py_round2_fixed [OF this] show ?thesis
      by (simp add: b_def get_base_rental_cost_def)
  qed
  with ab(2) have le: "apply_discount b d \<le> b" by simp
  have "\<bar>apply_discount b d\<bar> \<le> 10 ^ 13"
    using ab(1) le b1 by simp
  then have "py_round2 (apply_discount b d) = apply_discount b d"
    unfolding ad by (rule py_round2_fixed)
  then have c: "calculate_rental_cost v p d = apply_discount b d"
    using assms(2) by (simp add: calculate_rental_cost_def b_def)
  have t: "calculate_rental_cost v p d = calculate_rental_cost (v\<lparr>kind := Truck\<rparr>) p d"
    using assms(2) by (simp add: calculate_rental_cost_def get_base_rental_cost_def)
  have s1: "calculate_duration period1 = 5" by code_simp
  have s2: "daily_rate car001 = 65" by code_simp
  have s3: "calculate_rental_cost car001 period1 0 = 325" by code_simp
  have s4: "calculate_rental_cost car001 period1 (rnd (15 / 100)) = 27625 / 100" by code_simp
  have g: "get_base_rental_cost v p
           = py_round2 (fmul (float_of_int (calculate_duration p)) (daily_rate v))"
    by (simp add: get_base_rental_cost_def)
  have c': "calculate_rental_cost v p d
           = py_round2 (fsub (get_base_rental_cost v p) (fmul (get_base_rental_cost v p) d))"
    using c ad by (simp only: b_def)
  have n: "0 \<le> calculate_rental_cost v p d"
    using ab(1) by (simp only: c)
  have l: "calculate_rental_cost v p d \<le> get_base_rental_cost v p"
    using le by (simp only: c b_def)
  from g c' t n l period1_built s1 s2 s3 s4 show ?thesis
    by (intro conjI)
qed


theorem C4_car_cost_witness:
  "valid_period period1 \<and> kind car001 = Car \<and> (0::rat) \<le> rnd (15 / 100) \<and> rnd (15 / 100) \<le> (1::rat)
   \<and> 0 \<le> daily_rate car001 \<and> get_base_rental_cost car001 period1 = 325
   \<and> calculate_rental_cost car001 period1 (rnd (15 / 100)) = 27625 / 100
   \<and> calculate_rental_cost car001 period1 (calculate_discount c001 period1) = 27625 / 100
   \<and> calculate_rental_cost car001 period1 (calculate_discount i001 period1) = 325
   \<and> calculate_rental_cost car001 period1 (rnd (15 / 100))
       = py_round2 (fsub (get_base_rental_cost car001 period1)
           (fmul (get_base_rental_cost car001 period1) (rnd (15 / 100))))
   \<and> calculate_rental_cost car001 period1 (rnd (15 / 100)) \<le> get_base_rental_cost car001 period1"
proof -
  have v: "valid_period period1" using RentalPeriod_init_valid [OF period1_built] .
  have k: "kind car001 = Car" by code_simp
  have d0: "(0::rat) \<le> rnd (15 / 100)" by code_simp
  have d1: "rnd (15 / 100) \<le> (1::rat)" by code_simp
  have r: "0 \<le> daily_rate car001" by code_simp
  have b: "get_base_rental_cost car001 period1 = 325" by code_simp
  have b13: "get_base_rental_cost car001 period1 \<le> 10 ^ 13" by (simp add: b)
  have c1: "calculate_rental_cost car001 period1 (rnd (15 / 100)) = 27625 / 100" by code_simp
  have c2: "calculate_rental_cost car001 period1 (calculate_discount c001 period1) = 27625 / 100"
    by code_simp
  have c3: "calculate_rental_cost car001 period1 (calculate_discount i001 period1) = 325"
    by code_simp
  note th = C4_car_cost [OF v k d0 d1 r b13]
  from th have e: "calculate_rental_cost car001 period1 (rnd (15 / 100))
       = py_round2 (fsub (get_base_rental_cost car001 period1)
           (fmul (get_base_rental_cost car001 period1) (rnd (15 / 100))))"
    by blast
  from th have l: "calculate_rental_cost car001 period1 (rnd (15 / 100))
       \<le> get_base_rental_cost car001 period1"
    by blast
  from v k d0 d1 r b c1 c2 c3 e l show ?thesis by (intro conjI)
qed

text \<open>
  The claim as stated fails: the cost is not \<open>round(duration_days * daily_rate *
  (1 - d), 2)\<close>. A car at 65.18 a day, rented for the five days of the first period with
  the corporate discount 0.15, costs 277.01, while the formula gives 277.02, evaluated
  in floats and in exact decimals alike.
\<close>

theorem C4_car_cost_counterexample:
  "validate_daily_rate (rnd (6518 / 100)) = Inr (daily_rate car_6518)
   \<and> kind car_6518 = Car
   \<and> calculate_duration period1 = 5
   \<and> calculate_rental_cost car_6518 period1 (rnd (15 / 100)) = rnd (27701 / 100)
   \<and> py_round2 (fmul (fmul (float_of_int (calculate_duration period1)) (daily_rate car_6518))
                   (fsub 1 (rnd (15 / 100))))
       = rnd (27702 / 100)
   \<and> rat_of_int (round_half_even
          (rat_of_int (calculate_duration period1) * (6518 / 100) * (1 - 15 / 100) * 100)) / 100
       = 27702 / 100
   \<and> rnd (27701 / 100) < rnd (27702 / 100)"
  by code_simp

section \<open>A failed rent leaves the ledger alone\<close>

text \<open>
  Claim C7. When \<open>rent_vehicles\<close> finds the vehicle and the renter and the renter is at
  the limit of concurrent rentals (\<open>can_rent_vehicle\<close> is false), it returns \<open>False\<close>
  and the engine's state is the state before the call; the vehicle found under the id
  afterwards is the same vehicle, so \<open>is_available\<close> answers every period as before.
\<close>

theorem C7_capacity_failure_leaves_ledger:
  assumes "find_vehicle_by_id sys vid = Some v"
    and "find_renter_by_id sys rid = Some r"
    and "\<not> can_rent_vehicle r 5"
  shows "rent_vehicles sys vid rid p = (False, sys)
     \<and> find_vehicle_by_id (snd (rent_vehicles sys vid rid p)) vid = Some v
     \<and> (\<forall>q. is_available (the (find_vehicle_by_id (snd (rent_vehicles sys vid rid p)) vid)) q
            = is_available v q)"
proof -
  have "rent_vehicles_try sys vid rid p = (Inr False, sys)"
    using assms by (simp add: rent_vehicles_try_def)
  then have "rent_vehicles sys vid rid p = (False, sys)"
    by (simp add: rent_vehicles_def)
  then show ?thesis using assms(1) by simp
qed

theorem C7_capacity_failure_witness:
  "find_vehicle_by_id capacity_system ''CAR001'' = Some car001
   \<and> find_renter_by_id capacity_system ''I001'' = Some capacity_renter
   \<and> \<not> can_rent_vehicle capacity_renter 5
   \<and> rent_vehicles capacity_system ''CAR001'' ''I001'' period1 = (False, capacity_system)
   \<and> is_available (the (find_vehicle_by_id
         (snd (rent_vehicles capacity_system ''CAR001'' ''I001'' period1)) ''CAR001'')) period2
      = is_available car001 period2"
proof -
  have v: "find_vehicle_by_id capacity_system ''CAR001'' = Some car001"
    by (simp add: find_vehicle_by_id_def capacity_system_def car001_def)
  have r: "find_renter_by_id capacity_system ''I001'' = Some capacity_renter"
    by (simp add: find_renter_by_id_def capacity_system_def capacity_renter_def)
  have c: "\<not> can_rent_vehicle capacity_renter 5"
    by (simp add: can_rent_vehicle_def capacity_renter_def)
  from C7_capacity_failure_leaves_ledger [OF v r c, of period1] v r c
  show ?thesis by simp
qed

end
